theory Spec2Isabelle
  imports Complex_Main "HOL-Library.Sublist"
begin

section \<open>Values shared by the three source files\<close>

text \<open>
  A JavaScript \<open>number\<close> that holds a coordinate, a distance or a duration is a \<open>real\<close>;
  one that is an integer by construction (an HTTP status, an array index, the result of
  \<open>Math.floor\<close>) is a \<open>nat\<close> or an \<open>int\<close>. Arithmetic is exact: the rounding of
  doubles is not modelled, and the one place where the code computes with infinities, the
  bounding box of a polygon without positions, is a case of its own. A position is the pair
  \<open>[lng, lat]\<close>. The \<open>coordinates\<close> of a GeoJSON polygon are a list of rings.
\<close>

type_synonym position = "real \<times> real"
type_synonym ring = "position list"
type_synonym polygon = "ring list"

text \<open>Everything the code throws is an \<open>Error\<close> object; only its message is ever read.\<close>

datatype js_error = Error (message: string)

text \<open>Template literals print integers in decimal.\<close>

definition digit :: "nat \<Rightarrow> char" where
  "digit d = ''0123456789'' ! d"

function show_nat :: "nat \<Rightarrow> string" where
  "show_nat n = (if n < 10 then [digit n] else show_nat (n div 10) @ [digit (n mod 10)])"
  by pat_completeness auto
termination
  by (relation "measure id") auto

declare show_nat.simps [simp del]

definition show_int :: "int \<Rightarrow> string" where
  "show_int i = (if i < 0 then ''-'' @ show_nat (nat (- i)) else show_nat (nat i))"

text \<open>\<open>Array.prototype.join\<close>.\<close>

fun join :: "string \<Rightarrow> string list \<Rightarrow> string" where
  "join sep [] = []"
| "join sep [x] = x"
| "join sep (x # y # ys) = x @ sep @ join sep (y # ys)"

section \<open>src/lib/mapbox-api.ts\<close>

subsection \<open>The network\<close>

text \<open>
  The body of a response, as far as the code reads it: an object that may have a
  \<open>features\<close> property (the isochrone endpoint) and may have a \<open>routes\<close> property
  (the directions endpoint). A feature is read only through its \<open>geometry\<close>, a route
  only through \<open>distance\<close>, \<open>duration\<close> and \<open>geometry.coordinates\<close>.
\<close>

datatype feature = Feature (geometry: polygon)

record route_json =
  rj_distance :: real
  rj_duration :: real
  rj_coordinates :: "position list"

record json_body =
  features :: "feature list option"
  body_routes :: "route_json list option"

text \<open>
  A response: \<open>response.text()\<close> yields the body as received, \<open>response.json()\<close>
  either parses it or rejects.
\<close>

record response =
  ok :: bool
  status :: nat
  statusText :: string
  text_body :: string
  json :: "js_error + json_body"

text \<open>
  \<open>fetch\<close> is an effect. The network answers the \<open>k\<close>-th request, made with URL \<open>u\<close>,
  with \<open>respond k u\<close>: a rejection (the transport failed) or a response. \<open>requests\<close>
  lists the URLs fetched so far, oldest first.
\<close>

record network =
  respond :: "nat \<Rightarrow> string \<Rightarrow> js_error + response"
  requests :: "string list"

definition fetch :: "string \<Rightarrow> network \<Rightarrow> (js_error + response) \<times> network" where
  "fetch url net =
     (respond net (length (requests net)) url, net\<lparr>requests := requests net @ [url]\<rparr>)"

text \<open>
  What the module reads from its surroundings: the printing of a coordinate in a template
  literal (\<open>Number\<close> to string, a language primitive) and the access token of the process
  environment.
\<close>

record config =
  toStr :: "real \<Rightarrow> string"
  token :: string

subsection \<open>getIsochrone\<close>

definition isochrone_url :: "config \<Rightarrow> real \<Rightarrow> real \<Rightarrow> int \<Rightarrow> string" where
  "isochrone_url cfg lng lat minutes =
     ''https://api.mapbox.com/isochrone/v1/mapbox/'' @ ''walking'' @ ''/''
       @ toStr cfg lng @ '','' @ toStr cfg lat
       @ ''?contours_minutes='' @ show_int minutes
       @ ''&polygons=true&access_token='' @ token cfg"

definition getIsochrone ::
  "config \<Rightarrow> real \<Rightarrow> real \<Rightarrow> int \<Rightarrow> network \<Rightarrow> (js_error + json_body) \<times> network" where
  "getIsochrone cfg lng lat minutes net =
     (let url = isochrone_url cfg lng lat minutes;
          (fetched, net') = fetch url net;
          attempt =
            (case fetched of
               Inl err \<Rightarrow> Inl err
             | Inr response \<Rightarrow>
                 if \<not> ok response then
                   Inl (Error (''Failed to fetch isochrone: '' @ show_nat (status response)
                          @ '' '' @ statusText response @ '' - '' @ text_body response))
                 else json response)
      in (case attempt of
            Inl err \<Rightarrow> Inl (Error (''Failed to fetch isochrone: '' @ message err))
          | Inr data \<Rightarrow> Inr data,
          net'))"

subsection \<open>getDirections\<close>

datatype profile = walking | cycling | driving

fun profile_name :: "profile \<Rightarrow> string" where
  "profile_name walking = ''walking''"
| "profile_name cycling = ''cycling''"
| "profile_name driving = ''driving''"

definition coordinate_string :: "config \<Rightarrow> position \<Rightarrow> string" where
  "coordinate_string cfg p = toStr cfg (fst p) @ '','' @ toStr cfg (snd p)"

text \<open>The array that is joined with \<open>;\<close> into the path of the URL.\<close>

definition directions_coordinates :: "config \<Rightarrow> position \<Rightarrow> position list \<Rightarrow> string list" where
  "directions_coordinates cfg start waypoints =
     [coordinate_string cfg start] @ map (\<lambda>wp. coordinate_string cfg wp) waypoints
       @ [coordinate_string cfg start]"

definition directions_url :: "config \<Rightarrow> position \<Rightarrow> position list \<Rightarrow> profile \<Rightarrow> string" where
  "directions_url cfg start waypoints prof =
     (let coordinates = join '';'' (directions_coordinates cfg start waypoints)
      in ''https://api.mapbox.com/directions/v5/mapbox/'' @ profile_name prof @ ''/''
           @ coordinates
           @ ''?geometries=geojson&steps=true&alternatives=false&access_token='' @ token cfg)"

definition getDirections ::
  "config \<Rightarrow> position \<Rightarrow> position list \<Rightarrow> profile \<Rightarrow> network
     \<Rightarrow> (js_error + json_body) \<times> network" where
  "getDirections cfg start waypoints prof net =
     (let url = directions_url cfg start waypoints prof;
          (fetched, net') = fetch url net;
          attempt =
            (case fetched of
               Inl err \<Rightarrow> Inl err
             | Inr response \<Rightarrow>
                 if \<not> ok response then
                   Inl (Error (''Failed to fetch directions: '' @ show_nat (status response)
                          @ '' '' @ statusText response @ '' - '' @ text_body response))
                 else
                   (case json response of
                      Inl err \<Rightarrow> Inl err
                    | Inr data \<Rightarrow>
                        if body_routes data = None \<or> body_routes data = Some []
                        then Inl (Error ''No routes found for the given waypoints'')
                        else Inr data))
      in (case attempt of
            Inl err \<Rightarrow> Inl (Error (''Failed to fetch directions: '' @ message err))
          | Inr data \<Rightarrow> Inr data,
          net'))"

section \<open>src/lib/types.ts\<close>

text \<open>The second of the two declarations of \<open>Route\<close>; \<open>id\<close> is \<open>route_id\<close> here.\<close>

record route =
  route_id :: nat
  distance :: real
  duration :: real
  coordinates :: "position list"
  waypoints :: "position list option"
  elevationDifference :: "real option"

subsection \<open>The geometry library\<close>

text \<open>
  \<open>generateRandomPointsInPolygon\<close> calls four functions of the third-party library
  \<open>@turf/turf\<close>, which is not part of the repository.

  \<open>turf.polygon\<close> wraps the coordinates into a feature. It goes through the rings in
  order and throws at the first one that has fewer than four positions or whose first and
  last positions differ.

  \<open>turf.bbox\<close> returns \<open>[minX, minY, maxX, maxY]\<close>, starting from
  \<open>[Infinity, Infinity, -Infinity, -Infinity]\<close>. That box, the one of a polygon without
  positions, is \<open>None\<close> here.

  \<open>turf.point\<close> throws when a coordinate is not a number. Both draws in the box of a
  polygon without positions are \<open>NaN\<close>; no other draw is.

  \<open>turf.booleanPointInPolygon\<close> is called with no options. The test is a parameter of
  the sampler, so that what is proved of the sampler and of the generator holds whatever
  the test answers; \<open>turf_model\<close>, further down, is the test as the library has it.
\<close>

fun first_ring_error :: "polygon \<Rightarrow> js_error option" where
  "first_ring_error [] = None"
| "first_ring_error (ring # rest) =
     (if length ring < 4
      then Some (Error ''Each LinearRing of a Polygon must have 4 or more Positions.'')
      else if last ring \<noteq> hd ring
      then Some (Error ''First and last Position are not equivalent.'')
      else first_ring_error rest)"

definition turf_polygon :: "polygon \<Rightarrow> js_error + polygon" where
  "turf_polygon coords =
     (case first_ring_error coords of Some err \<Rightarrow> Inl err | None \<Rightarrow> Inr coords)"

type_synonym bbox = "real \<times> real \<times> real \<times> real"

definition bbox0 :: "bbox \<Rightarrow> real" where "bbox0 bb = fst bb"
definition bbox1 :: "bbox \<Rightarrow> real" where "bbox1 bb = fst (snd bb)"
definition bbox2 :: "bbox \<Rightarrow> real" where "bbox2 bb = fst (snd (snd bb))"
definition bbox3 :: "bbox \<Rightarrow> real" where "bbox3 bb = snd (snd (snd bb))"

fun bbox_extend :: "position \<Rightarrow> bbox \<Rightarrow> bbox" where
  "bbox_extend (x, y) (b0, b1, b2, b3) =
     ((if b0 > x then x else b0), (if b1 > y then y else b1),
      (if b2 < x then x else b2), (if b3 < y then y else b3))"

definition turf_bbox :: "polygon \<Rightarrow> bbox option" where
  "turf_bbox poly =
     (case concat poly of
        [] \<Rightarrow> None
      | p # ps \<Rightarrow> Some (fold bbox_extend ps (fst p, snd p, fst p, snd p)))"

record turf =
  booleanPointInPolygon :: "position \<Rightarrow> polygon \<Rightarrow> bool"

subsection \<open>generateRandomPointsInPolygon\<close>

text \<open>
  \<open>rnd\<close> is the sequence of values that successive calls of \<open>Math.random()\<close> return;
  \<open>k\<close> counts the calls made so far. The loop has no bound, so that not returning is the
  value \<open>None\<close>; \<open>Some (Inl err)\<close> is throwing \<open>err\<close>, \<open>Some (Inr points)\<close> is
  returning \<open>points\<close>. In the box of a polygon without positions both draws are
  \<open>NaN\<close>, and \<open>turf.point\<close> throws.
\<close>

partial_function (option) sample_loop ::
  "turf \<Rightarrow> polygon \<Rightarrow> bbox option \<Rightarrow> (nat \<Rightarrow> real) \<Rightarrow> real \<Rightarrow> nat \<Rightarrow> position list
     \<Rightarrow> (js_error + position list) option" where
  "sample_loop tf turfPolygon bbox rnd count k points =
     (if real (length points) < count then
        (case bbox of
           None \<Rightarrow> Some (Inl (Error ''coordinates must contain numbers''))
         | Some bb \<Rightarrow>
             (let lng = bbox0 bb + rnd k * (bbox2 bb - bbox0 bb);
                  lat = bbox1 bb + rnd (k + 1) * (bbox3 bb - bbox1 bb)
              in if booleanPointInPolygon tf (lng, lat) turfPolygon
                 then sample_loop tf turfPolygon bbox rnd count (k + 2) (points @ [(lng, lat)])
                 else sample_loop tf turfPolygon bbox rnd count (k + 2) points))
      else Some (Inr points))"

definition generateRandomPointsInPolygon ::
  "turf \<Rightarrow> (nat \<Rightarrow> real) \<Rightarrow> polygon \<Rightarrow> real \<Rightarrow> (js_error + position list) option" where
  "generateRandomPointsInPolygon tf rnd polygon count =
     (case turf_polygon polygon of
        Inl err \<Rightarrow> Some (Inl err)
      | Inr turfPolygon \<Rightarrow>
          (let bbox = turf_bbox turfPolygon
           in sample_loop tf turfPolygon bbox rnd count 0 []))"

subsection \<open>Conversions\<close>

definition kmToMiles :: "real \<Rightarrow> real" where
  "kmToMiles km = km * 0.621371"

definition metersToFeet :: "real \<Rightarrow> real" where
  "metersToFeet meters = meters * 3.28084"

definition estimateElevationDifference :: "real \<Rightarrow> real" where
  "estimateElevationDifference distanceInMeters = (distanceInMeters / 1000) * 10"

section \<open>src/components/map-component.tsx\<close>

subsection \<open>The map and the state of the component\<close>

text \<open>
  Of the map, the identifiers of its sources and layers and the bounds the camera was last
  fitted to; paint and layout properties are not modelled. \<open>waypointMarkers\<close> holds the
  positions of the markers of \<open>waypointMarkersRef\<close>.
\<close>

record mapbox_map =
  sources :: "string list"
  layers :: "string list"
  fitted :: "position list option"

definition getLayer :: "mapbox_map \<Rightarrow> string \<Rightarrow> bool" where
  "getLayer m ident = (ident \<in> set (layers m))"

definition getSource :: "mapbox_map \<Rightarrow> string \<Rightarrow> bool" where
  "getSource m ident = (ident \<in> set (sources m))"

definition removeLayer :: "string \<Rightarrow> mapbox_map \<Rightarrow> mapbox_map" where
  "removeLayer ident m = m\<lparr>layers := filter (\<lambda>l. l \<noteq> ident) (layers m)\<rparr>"

definition removeSource :: "string \<Rightarrow> mapbox_map \<Rightarrow> mapbox_map" where
  "removeSource ident m = m\<lparr>sources := filter (\<lambda>l. l \<noteq> ident) (sources m)\<rparr>"

definition addLayer :: "string \<Rightarrow> mapbox_map \<Rightarrow> mapbox_map" where
  "addLayer ident m = m\<lparr>layers := layers m @ [ident]\<rparr>"

definition addSource :: "string \<Rightarrow> mapbox_map \<Rightarrow> mapbox_map" where
  "addSource ident m = m\<lparr>sources := sources m @ [ident]\<rparr>"

definition fitBounds :: "position list \<Rightarrow> mapbox_map \<Rightarrow> mapbox_map" where
  "fitBounds coords m = m\<lparr>fitted := Some coords\<rparr>"

record component =
  map_current :: "mapbox_map option"
  waypointMarkers :: "position list"
  lng :: real
  lat :: real
  loading :: bool
  isochroneData :: "json_body option"
  routes :: "route list"
  activeRouteIndex :: string
  error :: "string option"
  walkDuration :: real
  debugInfo :: "string option"

text \<open>
  \<open>map.current.f(...)\<close> inside \<open>generateRoutes\<close>: the reference was checked on entry
  and nothing in the function assigns it.
\<close>

definition on_map :: "(mapbox_map \<Rightarrow> mapbox_map) \<Rightarrow> component \<Rightarrow> component" where
  "on_map f s = s\<lparr>map_current := map_option f (map_current s)\<rparr>"

definition route_layer :: "nat \<Rightarrow> string" where
  "route_layer i = ''route-'' @ show_nat i"

subsection \<open>clearMapLayers\<close>

definition clearRoute :: "nat \<Rightarrow> mapbox_map \<Rightarrow> mapbox_map" where
  "clearRoute i m =
     (let m1 = (if getLayer m (route_layer i) then removeLayer (route_layer i) m else m)
      in if getSource m1 (route_layer i) then removeSource (route_layer i) m1 else m1)"

definition clearMapLayers :: "component \<Rightarrow> component" where
  "clearMapLayers s =
     (case map_current s of
        None \<Rightarrow> s
      | Some m \<Rightarrow>
          (let m1 = (if getLayer m ''isochrone-fill'' then removeLayer ''isochrone-fill'' m else m);
               m2 = (if getLayer m1 ''isochrone-line'' then removeLayer ''isochrone-line'' m1 else m1);
               m3 = (if getSource m2 ''isochrone'' then removeSource ''isochrone'' m2 else m2);
               m4 = fold clearRoute [0..<10] m3
           in s\<lparr>map_current := Some m4, waypointMarkers := []\<rparr>))"

subsection \<open>filterRoutesByDuration\<close>

definition filterRoutesByDuration :: "route list \<Rightarrow> real \<Rightarrow> route list" where
  "filterRoutesByDuration rs maxDuration =
     (let maxDurationSeconds = maxDuration * 60
      in filter (\<lambda>route. duration route \<le> maxDurationSeconds) rs)"

subsection \<open>addRoutesToMap\<close>

text \<open>
  One call of the callback of \<open>routesToAdd.map\<close>. Reading \<open>route.waypoints![0]\<close> of a
  route without waypoints throws, and so does placing a marker at a missing waypoint;
  the source and the layer have been added by then.
\<close>

definition addRoute :: "nat \<Rightarrow> route \<Rightarrow> component \<Rightarrow> js_error option \<times> component" where
  "addRoute index r s =
     (let s1 = on_map (addLayer (route_layer index) \<circ> addSource (route_layer index)) s
      in case waypoints r of
           None \<Rightarrow> (Some (Error ''Cannot read properties of undefined (reading '0')''), s1)
         | Some wps \<Rightarrow>
             (case wps of
                waypoint1 # waypoint2 # _ \<Rightarrow>
                  (None, s1\<lparr>waypointMarkers := waypointMarkers s1 @ [waypoint1, waypoint2]\<rparr>)
              | _ \<Rightarrow> (Some (Error ''`LngLatLike` argument must be specified''), s1)))"

fun addRoutes :: "nat \<Rightarrow> route list \<Rightarrow> component \<Rightarrow> js_error option \<times> component" where
  "addRoutes index [] s = (None, s)"
| "addRoutes index (r # rs) s =
     (case addRoute index r s of
        (Some err, s') \<Rightarrow> (Some err, s')
      | (None, s') \<Rightarrow> addRoutes (index + 1) rs s')"

definition addRoutesToMap :: "route list \<Rightarrow> component \<Rightarrow> js_error option \<times> component" where
  "addRoutesToMap routesToAdd s =
     (case map_current s of
        None \<Rightarrow> (None, s)
      | Some _ \<Rightarrow>
          (case addRoutes 0 routesToAdd s of
             (Some err, s') \<Rightarrow> (Some err, s')
           | (None, s') \<Rightarrow> (None, s'\<lparr>routes := routesToAdd\<rparr>)))"

subsection \<open>generateRoutes\<close>

text \<open>What the component reads from its surroundings.\<close>

record env =
  env_config :: config
  env_turf :: turf
  env_random :: "nat \<Rightarrow> real"

definition halfDuration :: "real \<Rightarrow> int" where
  "halfDuration wd = max \<lfloor>wd / 2\<rfloor> 5"

text \<open>Group points into pairs: \<open>[0,1]\<close>, \<open>[2,3]\<close>, ...; a last point alone is dropped.\<close>

fun pairWaypoints :: "position list \<Rightarrow> position list list" where
  "pairWaypoints (p # q # rest) = [p, q] # pairWaypoints rest"
| "pairWaypoints _ = []"

text \<open>
  The loop over \<open>routeWaypoints\<close>: a request that throws is logged and skipped, a result is
  pushed to \<open>routePromises\<close>.
\<close>

fun requestRoutes ::
  "config \<Rightarrow> position \<Rightarrow> position list list \<Rightarrow> network \<Rightarrow> json_body list \<times> network" where
  "requestRoutes c start [] net = ([], net)"
| "requestRoutes c start (wps # rest) net =
     (case getDirections c start wps walking net of
        (Inl err, net') \<Rightarrow> requestRoutes c start rest net'
      | (Inr result, net') \<Rightarrow>
          (case requestRoutes c start rest net' of
             (results, net'') \<Rightarrow> (result # results, net'')))"

text \<open>
  \<open>routePromises.forEach((response, index) => ...)\<close>: \<open>index\<close> is the position of the
  response in \<open>routePromises\<close>. Reading \<open>response.routes[0]\<close> or the geometry of a missing
  route throws.
\<close>

fun processRoutes :: "position list list \<Rightarrow> nat \<Rightarrow> json_body list \<Rightarrow> js_error + route list" where
  "processRoutes routeWaypoints index [] = Inr []"
| "processRoutes routeWaypoints index (response # rest) =
     (case body_routes response of
        Some (r # _) \<Rightarrow>
          (case processRoutes routeWaypoints (index + 1) rest of
             Inl err \<Rightarrow> Inl err
           | Inr allRoutes \<Rightarrow>
               Inr (\<lparr>route_id = index,
                     distance = rj_distance r,
                     duration = rj_duration r,
                     coordinates = rj_coordinates r,
                     waypoints = (if index < length routeWaypoints
                                  then Some (routeWaypoints ! index) else None),
                     elevationDifference = Some (estimateElevationDifference (rj_distance r))\<rparr>
                    # allRoutes))
      | _ \<Rightarrow> Inl (Error ''Cannot read properties of undefined''))"

definition displayRoutes ::
  "config \<Rightarrow> real \<Rightarrow> route list \<Rightarrow> component \<Rightarrow> js_error option \<times> component" where
  "displayRoutes c wd filteredRoutes s =
     (if length filteredRoutes < 1 then
        (None, s\<lparr>error := Some (''Could not find any routes within '' @ toStr c wd
           @ '' minutes. Try increasing the duration or selecting a different starting point.'')\<rparr>)
      else if length filteredRoutes < 3 then
        addRoutesToMap filteredRoutes
          (s\<lparr>error := Some (''Could only find '' @ show_nat (length filteredRoutes)
             @ '' routes within '' @ toStr c wd @ '' minutes. Try increasing the duration.'')\<rparr>)
      else addRoutesToMap (take 3 filteredRoutes) s)"

text \<open>
  The body of the \<open>try\<close> block. The result is \<open>None\<close> when the sampler does not return;
  otherwise it holds the error thrown, if any, and the state and network reached. Reading
  \<open>features[0]\<close> of a body without \<open>features\<close> throws, and so does reading the
  \<open>geometry\<close> of a missing first feature; the isochrone layers have been added by then.
\<close>

definition generateRoutes_try ::
  "env \<Rightarrow> component \<Rightarrow> network \<Rightarrow> (js_error option \<times> component \<times> network) option" where
  "generateRoutes_try e s net =
     (let s1 = s\<lparr>debugInfo := Some (''Using '' @ show_int (halfDuration (walkDuration s))
                  @ '' min isochrone for '' @ toStr (env_config e) (walkDuration s)
                  @ '' min total walk'')\<rparr>
      in case getIsochrone (env_config e) (lng s) (lat s) (halfDuration (walkDuration s)) net of
           (Inl err, net1) \<Rightarrow> Some (Some err, s1, net1)
         | (Inr isochroneResponse, net1) \<Rightarrow>
             (let s2 = s1\<lparr>isochroneData := Some isochroneResponse\<rparr>;
                  s3 = on_map (addLayer ''isochrone-line'' \<circ> addLayer ''isochrone-fill''
                                 \<circ> addSource ''isochrone'') s2
              in case features isochroneResponse of
                   None \<Rightarrow>
                     Some (Some (Error ''Cannot read properties of undefined (reading '0')''),
                           s3, net1)
                 | Some [] \<Rightarrow>
                     Some (Some (Error ''Cannot read properties of undefined (reading 'geometry')''),
                           s3, net1)
                 | Some (f # _) \<Rightarrow>
                     (let polygon = geometry f
                      in case generateRandomPointsInPolygon (env_turf e) (env_random e) polygon 12 of
                           None \<Rightarrow> None
                         | Some (Inl err) \<Rightarrow> Some (Some err, s3, net1)
                         | Some (Inr randomPoints) \<Rightarrow>
                             (let routeWaypoints = pairWaypoints randomPoints;
                                  (routePromises, net2) =
                                     requestRoutes (env_config e) (lng s, lat s) routeWaypoints net1
                              in case processRoutes routeWaypoints 0 routePromises of
                                   Inl err \<Rightarrow> Some (Some err, s3, net2)
                                 | Inr allRoutes \<Rightarrow>
                                     (let filteredRoutes =
                                            filterRoutesByDuration allRoutes (walkDuration s);
                                          (thrown, s4) =
                                            displayRoutes (env_config e) (walkDuration s) filteredRoutes s3
                                      in case thrown of
                                           Some err \<Rightarrow> Some (Some err, s4, net2)
                                         | None \<Rightarrow>
                                             (case polygon of
                                                [] \<Rightarrow> Some (Some (Error
                                                   ''Cannot read properties of undefined (reading 'forEach')''),
                                                   s4, net2)
                                              | ring # _ \<Rightarrow>
                                                  Some (None, on_map (fitBounds ring) s4, net2)))))))"

definition generateRoutes :: "env \<Rightarrow> component \<Rightarrow> network \<Rightarrow> (component \<times> network) option" where
  "generateRoutes e s net =
     (case map_current s of
        None \<Rightarrow>
          Some (s\<lparr>error := Some ''Map is not initialized. Please refresh the page and try again.''\<rparr>,
                net)
      | Some _ \<Rightarrow>
          (let s0 = clearMapLayers
                      (s\<lparr>loading := True, error := None, debugInfo := None,
                         routes := [], activeRouteIndex := ''0''\<rparr>)
           in case generateRoutes_try e s0 net of
                None \<Rightarrow> None
              | Some (thrown, s', net') \<Rightarrow>
                  (let s'' = (case thrown of
                                Some err \<Rightarrow>
                                  s'\<lparr>error := Some (''Failed to generate routes: '' @ message err)\<rparr>
                              | None \<Rightarrow> s')
                   in Some (s''\<lparr>loading := False\<rparr>, net'))))"

section \<open>The containment test of the library\<close>

text \<open>
  \<open>booleanPointInPolygon\<close> as the library has it. \<open>inRing\<close> drops the closing
  position of a ring, then goes through its edges: a point on an edge is reported at once,
  as contained unless \<open>ignoreBoundary\<close> is set; every edge that a ray from the point
  towards greater longitudes crosses flips the answer. A point is in a polygon when it is
  in the outer ring, the boundary counted in, and in none of the holes, their boundary
  counted out. The sampler sets no option.
\<close>

fun inRing_loop :: "position \<Rightarrow> bool \<Rightarrow> (position \<times> position) list \<Rightarrow> bool \<Rightarrow> bool" where
  "inRing_loop pt ignoreBoundary [] isInside = isInside"
| "inRing_loop pt ignoreBoundary (((xi, yi), (xj, yj)) # edges) isInside =
     (let onBoundary =
            (snd pt * (xi - xj) + yi * (xj - fst pt) + yj * (fst pt - xi) = 0
             \<and> (xi - fst pt) * (xj - fst pt) \<le> 0 \<and> (yi - snd pt) * (yj - snd pt) \<le> 0)
      in if onBoundary then \<not> ignoreBoundary
         else
           (let intersect =
                  ((yi > snd pt) \<noteq> (yj > snd pt)
                   \<and> fst pt < (xj - xi) * (snd pt - yi) / (yj - yi) + xi)
            in inRing_loop pt ignoreBoundary edges (if intersect then \<not> isInside else isInside)))"

definition inRing :: "position \<Rightarrow> ring \<Rightarrow> bool \<Rightarrow> bool" where
  "inRing pt r ignoreBoundary =
     (let r' = (if r \<noteq> [] \<and> hd r = last r then butlast r else r)
      in case r' of
           [] \<Rightarrow> False
         | _ \<Rightarrow> inRing_loop pt ignoreBoundary (zip r' (last r' # butlast r')) False)"

definition pointInPolygon_model :: "position \<Rightarrow> polygon \<Rightarrow> bool" where
  "pointInPolygon_model pt poly =
     (case poly of
        [] \<Rightarrow> False
      | outer # holes \<Rightarrow> inRing pt outer False \<and> \<not> list_ex (\<lambda>h. inRing pt h True) holes)"

definition turf_model :: turf where
  "turf_model = \<lparr>booleanPointInPolygon = pointInPolygon_model\<rparr>"

section \<open>Inside a polygon and on its boundary\<close>

text \<open>
  A position lies on the boundary of a polygon when it lies on the segment between two
  consecutive positions of one of its rings.
\<close>

definition on_edge :: "position \<Rightarrow> position \<Rightarrow> position \<Rightarrow> bool" where
  "on_edge p a b =
     ((fst b - fst a) * (snd p - snd a) = (snd b - snd a) * (fst p - fst a)
      \<and> min (fst a) (fst b) \<le> fst p \<and> fst p \<le> max (fst a) (fst b)
      \<and> min (snd a) (snd b) \<le> snd p \<and> snd p \<le> max (snd a) (snd b))"

fun on_ring :: "position \<Rightarrow> ring \<Rightarrow> bool" where
  "on_ring p (a # b # r) = (on_edge p a b \<or> on_ring p (b # r))"
| "on_ring p _ = False"

definition on_boundary :: "position \<Rightarrow> polygon \<Rightarrow> bool" where
  "on_boundary p poly = list_ex (on_ring p) poly"

text \<open>
  The ray from \<open>p\<close> towards greater longitudes crosses the edge from \<open>a\<close> to \<open>b\<close> when
  the ends of the edge lie on different sides of the latitude of \<open>p\<close> and the edge meets
  that latitude at a longitude greater than the one of \<open>p\<close>. By the even-odd rule a
  position off a ring is inside it when the ray crosses the ring an odd number of times.
  A position is strictly inside a polygon when it is on none of its rings, inside the
  outer ring and inside none of the holes.
\<close>

definition crosses :: "position \<Rightarrow> position \<Rightarrow> position \<Rightarrow> bool" where
  "crosses p a b =
     ((snd a > snd p) \<noteq> (snd b > snd p)
      \<and> fst p < fst a + (fst b - fst a) * (snd p - snd a) / (snd b - snd a))"

fun crossings :: "position \<Rightarrow> ring \<Rightarrow> nat" where
  "crossings p (a # b # r) = (if crosses p a b then 1 else 0) + crossings p (b # r)"
| "crossings p _ = 0"

definition strictly_inside :: "position \<Rightarrow> polygon \<Rightarrow> bool" where
  "strictly_inside p poly =
     (case poly of
        [] \<Rightarrow> False
      | outer # holes \<Rightarrow>
          \<not> on_boundary p poly \<and> odd (crossings p outer)
          \<and> list_all (\<lambda>h. even (crossings p h)) holes)"

section \<open>Concrete inputs\<close>

text \<open>A printing of numbers that is exact on integers, and a configuration that uses it.\<close>

definition example_toStr :: "real \<Rightarrow> string" where
  "example_toStr x = show_int \<lfloor>x\<rfloor>"

definition example_config :: config where
  "example_config = \<lparr>toStr = example_toStr, token = ''pk.test''\<rparr>"

definition square :: polygon where
  "square = [[(0, 0), (8, 0), (8, 8), (0, 8), (0, 0)]]"

definition triangle :: polygon where
  "triangle = [[(0, 0), (8, 0), (0, 8), (0, 0)]]"


text \<open>\<open>Math.random()\<close> returns \<open>3/4\<close> for ever.\<close>

definition three_quarters :: "nat \<Rightarrow> real" where
  "three_quarters k = 3 / 4"


text \<open>A response with status 404.\<close>

definition not_found :: response where
  "not_found =
     \<lparr>ok = False, status = 404, statusText = ''Not Found'', text_body = ''no such profile'',
      json = Inl (Error ''Unexpected token'')\<rparr>"

definition network_404 :: network where
  "network_404 = \<lparr>respond = (\<lambda>k u. Inr not_found), requests = []\<rparr>"

text \<open>A map with nothing on it, and a component that has just been mounted on it.\<close>

definition blank_map :: mapbox_map where
  "blank_map = \<lparr>sources = [], layers = [], fitted = None\<rparr>"

definition idle :: component where
  "idle = \<lparr>map_current = Some blank_map, waypointMarkers = [], lng = 1, lat = 2,
            loading = False, isochroneData = None, routes = [], activeRouteIndex = ''0'',
            error = None, walkDuration = 30, debugInfo = None\<rparr>"

text \<open>A candidate route of a given duration, and five of them.\<close>

definition candidate :: "nat \<Rightarrow> real \<Rightarrow> route" where
  "candidate i d =
     \<lparr>route_id = i, distance = 1000, duration = d, coordinates = [],
      waypoints = Some [(1, 1), (2, 2)], elevationDifference = Some 10\<rparr>"

definition five_candidates :: "route list" where
  "five_candidates =
     [candidate 0 600, candidate 1 2400, candidate 2 1200, candidate 3 1800, candidate 4 900]"

text \<open>A component that shows one route, with its layer, its source and its two markers.\<close>

definition showing :: component where
  "showing =
     idle\<lparr>map_current := Some \<lparr>sources = [''route-0''], layers = [''route-0''], fitted = None\<rparr>,
          waypointMarkers := [(1, 1), (2, 2)],
          routes := [candidate 0 600]\<rparr>"

text \<open>
  Draws that fall on the positions \<open>(1, 2)\<close>, \<open>(3, 4)\<close>, \<open>(5, 6)\<close>, \<open>(7, 1)\<close>, ... of the
  square, all of them inside it.
\<close>

definition steady_draws :: "nat \<Rightarrow> real" where
  "steady_draws k = real (k mod 7 + 1) / 8"

definition twelve_points :: "position list" where
  "twelve_points =
     [(1, 2), (3, 4), (5, 6), (7, 1), (2, 3), (4, 5), (6, 7), (1, 2), (3, 4), (5, 6), (7, 1), (2, 3)]"

definition example_env :: env where
  "example_env =
     \<lparr>env_config = example_config, env_turf = turf_model, env_random = steady_draws\<rparr>"

text \<open>
  Responses: the isochrone of the square, and a route whose distance and duration tell
  which request it answers (\<open>100 * k\<close> meters and \<open>600 * k\<close> seconds for request \<open>k\<close>).
\<close>

definition isochrone_ok :: response where
  "isochrone_ok =
     \<lparr>ok = True, status = 200, statusText = ''OK'', text_body = [],
      json = Inr \<lparr>features = Some [Feature square], body_routes = None\<rparr>\<rparr>"

definition route_ok :: "nat \<Rightarrow> response" where
  "route_ok k =
     \<lparr>ok = True, status = 200, statusText = ''OK'', text_body = [],
      json = Inr \<lparr>features = None,
                  body_routes = Some [\<lparr>rj_distance = 100 * real k, rj_duration = 600 * real k,
                                        rj_coordinates = []\<rparr>]\<rparr>\<rparr>"

text \<open>
  Networks: one on which every request is rejected; one on which the isochrone request
  (request \<open>0\<close>) succeeds and every routing request is rejected; one on which only the
  first routing request (request \<open>1\<close>) is rejected.
\<close>

definition provider_down :: network where
  "provider_down = \<lparr>respond = (\<lambda>k u. Inl (Error ''Failed to fetch'')), requests = []\<rparr>"


definition first_route_fails :: network where
  "first_route_fails =
     \<lparr>respond = (\<lambda>k u. if k = 0 then Inr isochrone_ok
                        else if k = 1 then Inl (Error ''Failed to fetch'')
                        else Inr (route_ok k)),
      requests = []\<rparr>"





section \<open>Properties of src/lib/mapbox-api.ts\<close>

lemma show_nat_404: "show_nat 404 = ''404''"
  by (simp add: show_nat.simps digit_def)


text \<open>
  C8. \<open>getDirections\<close> throws exactly when the transport fails (\<open>fetch\<close> rejects, or the
  body of a successful response cannot be read as JSON), the response has a non-success
  status, or the response has no routes (no \<open>routes\<close> property or an empty array). On a
  non-success status the message of the error holds the status, the status text and the
  text of the body; so does the message of \<open>getIsochrone\<close>.
\<close>

theorem getDirections_throws_iff:
  "(let fetched = respond net (length (requests net)) (directions_url c start wps prof);
        result = fst (getDirections c start wps prof net)
    in (isl result \<longleftrightarrow>
          (case fetched of
             Inl err \<Rightarrow> True
           | Inr r \<Rightarrow> \<not> ok r \<or>
               (case json r of
                  Inl err \<Rightarrow> True
                | Inr data \<Rightarrow> body_routes data = None \<or> body_routes data = Some [])))
     \<and> (\<forall>r. fetched = Inr r \<and> \<not> ok r \<longrightarrow>
           result = Inl (Error (''Failed to fetch directions: Failed to fetch directions: ''
                      @ show_nat (status r) @ '' '' @ statusText r @ '' - '' @ text_body r))))
   \<and> (\<forall>r. respond net (length (requests net)) (isochrone_url c x y minutes) = Inr r \<and> \<not> ok r
          \<longrightarrow> fst (getIsochrone c x y minutes net)
                = Inl (Error (''Failed to fetch isochrone: Failed to fetch isochrone: ''
                        @ show_nat (status r) @ '' '' @ statusText r @ '' - '' @ text_body r)))"
  by (auto simp: getDirections_def getIsochrone_def fetch_def Let_def
      split: sum.splits prod.splits)

text \<open>A request that is answered with status 404.\<close>

theorem getDirections_throws_iff_witness:
  "respond network_404 (length (requests network_404))
       (directions_url example_config (1, 2) [(3, 4), (5, 6)] walking) = Inr not_found
   \<and> respond network_404 (length (requests network_404))
       (isochrone_url example_config 1 2 15) = Inr not_found
   \<and> \<not> ok not_found
   \<and> isl (fst (getDirections example_config (1, 2) [(3, 4), (5, 6)] walking network_404))
   \<and> fst (getDirections example_config (1, 2) [(3, 4), (5, 6)] walking network_404)
       = Inl (Error
          ''Failed to fetch directions: Failed to fetch directions: 404 Not Found - no such profile'')
   \<and> fst (getIsochrone example_config 1 2 15 network_404)
       = Inl (Error
          ''Failed to fetch isochrone: Failed to fetch isochrone: 404 Not Found - no such profile'')"
  using getDirections_throws_iff
    [of network_404 example_config "(1, 2)" "[(3, 4), (5, 6)]" walking 1 2 15]
  by (simp add: network_404_def not_found_def Let_def show_nat_404)

section \<open>Properties of the point sampler\<close>

lemmas turf_eval =
  turf_model_def turf_polygon_def turf_bbox_def pointInPolygon_model_def inRing_def
  bbox0_def bbox1_def bbox2_def bbox3_def Let_def



text \<open>When no draw is accepted, the loop cannot return while points are still missing.\<close>

lemma sample_loop_stuck:
  assumes miss: "\<And>i. \<not> booleanPointInPolygon tf
            (bbox0 bb + rnd (2 * i) * (bbox2 bb - bbox0 bb),
             bbox1 bb + rnd (2 * i + 1) * (bbox3 bb - bbox1 bb)) poly"
    and ret: "sample_loop tf poly (Some bb) rnd count k points = Some res"
    and even: "even k"
  shows "\<not> real (length points) < count"
proof -
  let ?P = "\<lambda>tf' poly' (bbox' :: bbox option) (rnd' :: nat \<Rightarrow> real) count (k :: nat)
               (points :: position list) (res :: js_error + position list).
      tf' = tf \<and> poly' = poly \<and> bbox' = Some bb \<and> rnd' = rnd \<and> even k
        \<longrightarrow> \<not> real (length points) < count"
  have "?P tf poly (Some bb) rnd count k points res"
  proof (rule sample_loop.raw_induct [where P = ?P, OF _ ret])
    fix loop tf' poly' bbox' rnd' count k points res
    assume IH: "\<And>tf' poly' bbox' rnd' count k points res.
                 loop tf' poly' bbox' rnd' count k points = Some res
                 \<Longrightarrow> ?P tf' poly' bbox' rnd' count k points res"
      and body: "(if real (length points) < count then
                   (case bbox' of
                      None \<Rightarrow> Some (Inl (Error ''coordinates must contain numbers''))
                    | Some bb \<Rightarrow>
                        (let lng = bbox0 bb + rnd' k * (bbox2 bb - bbox0 bb);
                             lat = bbox1 bb + rnd' (k + 1) * (bbox3 bb - bbox1 bb)
                         in if booleanPointInPolygon tf' (lng, lat) poly'
                            then loop tf' poly' bbox' rnd' count (k + 2) (points @ [(lng, lat)])
                            else loop tf' poly' bbox' rnd' count (k + 2) points))
                 else Some (Inr points)) = Some res"
    show "?P tf' poly' bbox' rnd' count k points res"
    proof (intro impI notI, elim conjE)
      assume eqs: "tf' = tf" "poly' = poly" "bbox' = Some bb" "rnd' = rnd" and ev: "even k"
        and less: "real (length points) < count"
      from ev obtain i where k: "k = 2 * i" by (auto elim: evenE)
      from miss [of i] have "\<not> booleanPointInPolygon tf
            (bbox0 bb + rnd k * (bbox2 bb - bbox0 bb),
             bbox1 bb + rnd (k + 1) * (bbox3 bb - bbox1 bb)) poly"
        by (simp add: k)
      with body less eqs have "loop tf poly (Some bb) rnd count (k + 2) points = Some res"
        by (simp add: Let_def)
      from IH [OF this] ev less show False by simp
    qed
  qed
  with even show ?thesis by simp
qed

text \<open>What the sampler does on a polygon that \<open>turf.polygon\<close> rejects, or that has no position.\<close>

lemma sampler_rejected_polygon:
  "turf_polygon polygon = Inl err \<Longrightarrow>
     generateRandomPointsInPolygon tf rnd polygon count = Some (Inl err)"
  by (simp add: generateRandomPointsInPolygon_def)







text \<open>
  The edge test and the crossing test of the library are the ones of the definitions
  above, whichever end of the edge comes first.
\<close>

lemma on_edge_commute: "on_edge p a b = on_edge p b a"
  by (auto simp: on_edge_def min_def max_def algebra_simps)

lemma crosses_commute: "crosses p a b = crosses p b a"
proof (cases "snd a = snd b")
  case True
  then show ?thesis by (auto simp: crosses_def)
next
  case False
  then have "fst a + (fst b - fst a) * (snd p - snd a) / (snd b - snd a)
           = fst b + (fst a - fst b) * (snd p - snd b) / (snd a - snd b)"
    by (simp add: field_simps)
  then show ?thesis by (auto simp: crosses_def)
qed

lemma onBoundary_on_edge:
  "(snd pt * (xi - xj) + yi * (xj - fst pt) + yj * (fst pt - xi) = 0
     \<and> (xi - fst pt) * (xj - fst pt) \<le> 0 \<and> (yi - snd pt) * (yj - snd pt) \<le> 0)
   = on_edge pt (xi, yi) (xj, yj)"
proof -
  have col: "(snd pt * (xi - xj) + yi * (xj - fst pt) + yj * (fst pt - xi) = 0)
           = ((xj - xi) * (snd pt - yi) = (yj - yi) * (fst pt - xi))"
    by (auto simp: algebra_simps)
  have between: "\<And>a b c :: real. ((a - c) * (b - c) \<le> 0) = (min a b \<le> c \<and> c \<le> max a b)"
    by (auto simp: mult_le_0_iff min_def max_def)
  show ?thesis
    unfolding on_edge_def col between by auto
qed

lemma intersect_crosses:
  "((yi > snd pt) \<noteq> (yj > snd pt) \<and> fst pt < (xj - xi) * (snd pt - yi) / (yj - yi) + xi)
   = crosses pt (xi, yi) (xj, yj)"
  by (auto simp: crosses_def add.commute)

text \<open>
  The loop over the edges: a point on one of the edges is reported according to
  \<open>ignoreBoundary\<close>; otherwise the answer is flipped once for every edge crossed.
\<close>

lemma inRing_loop_eq:
  "inRing_loop pt ib es b =
     (if list_ex (\<lambda>e. on_edge pt (fst e) (snd e)) es then \<not> ib
      else (b \<noteq> odd (length (filter (\<lambda>e. crosses pt (fst e) (snd e)) es))))"
proof (induction es arbitrary: b)
  case Nil
  show ?case by simp
next
  case (Cons e es)
  obtain xi yi xj yj where e: "e = ((xi, yi), (xj, yj))"
    by (cases e) auto
  show ?case
    unfolding e inRing_loop.simps onBoundary_on_edge intersect_crosses Let_def
    by (auto simp: Cons.IH)
qed

text \<open>
  The edges of the loop, each with the position before it, and the consecutive positions
  of the closed ring.
\<close>

lemma zip_butlast_Cons:
  "zip (x # xs) (p # butlast (x # xs)) = (x, p) # zip xs (x # butlast xs)"
  by (cases xs) simp_all

lemma zip_butlast_snoc:
  "zip (xs @ [y]) (p # butlast (xs @ [y])) = zip xs (p # butlast xs) @ [(y, last (p # xs))]"
proof (induction xs arbitrary: p)
  case Nil
  show ?case by simp
next
  case (Cons x xs)
  have "zip ((x # xs) @ [y]) (p # butlast ((x # xs) @ [y]))
      = (x, p) # zip (xs @ [y]) (x # butlast (xs @ [y]))"
    using zip_butlast_Cons [of x "xs @ [y]" p] by simp
  also have "\<dots> = (x, p) # zip xs (x # butlast xs) @ [(y, last (x # xs))]"
    by (simp only: Cons.IH append_Cons)
  also have "\<dots> = zip (x # xs) (p # butlast (x # xs)) @ [(y, last (p # x # xs))]"
    by (simp only: zip_butlast_Cons append_Cons last.simps list.simps if_False)
  finally show ?case .
qed

lemma on_ring_edges:
  "on_ring pt (p # xs) = list_ex (\<lambda>e. on_edge pt (fst e) (snd e)) (zip xs (p # butlast xs))"
proof (induction xs arbitrary: p)
  case Nil
  show ?case by simp
next
  case (Cons x xs)
  show ?case
    unfolding zip_butlast_Cons
    by (simp add: Cons.IH on_edge_commute [of pt x p])
qed

lemma crossings_edges:
  "crossings pt (p # xs)
     = length (filter (\<lambda>e. crosses pt (fst e) (snd e)) (zip xs (p # butlast xs)))"
proof (induction xs arbitrary: p)
  case Nil
  show ?case by simp
next
  case (Cons x xs)
  show ?case
    unfolding zip_butlast_Cons
    by (simp add: Cons.IH crosses_commute [of pt x p])
qed

text \<open>
  On a closed ring of two positions or more, the test of the library is the even-odd rule
  off the ring, and \<open>\<not> ignoreBoundary\<close> on it.
\<close>

lemma inRing_closed:
  assumes closed: "last r = hd r" and len: "2 \<le> length r"
  shows "inRing pt r ib = (if on_ring pt r then \<not> ib else odd (crossings pt r))"
proof -
  from len obtain p t q where r: "r = p # t @ [q]"
    by (cases r; cases "tl r" rule: rev_cases) auto
  with closed have q: "q = p" by simp
  have r': "butlast r = p # t" by (simp add: r butlast_append)
  have ne: "r \<noteq> []" by (simp add: r)
  from closed have cl: "hd r = last r" by simp
  have "inRing pt r ib = inRing_loop pt ib (zip (p # t) (last (p # t) # butlast (p # t))) False"
    by (simp only: inRing_def ne cl r' Let_def simp_thms if_True list.case)
  then have "inRing pt r ib
      = inRing_loop pt ib ((p, last (p # t)) # zip t (p # butlast t)) False"
    by (simp only: zip_butlast_Cons)
  moreover have "on_ring pt r
      = list_ex (\<lambda>e. on_edge pt (fst e) (snd e)) ((p, last (p # t)) # zip t (p # butlast t))"
    unfolding r q on_ring_edges zip_butlast_snoc by auto
  moreover have "crossings pt r
      = length (filter (\<lambda>e. crosses pt (fst e) (snd e)) ((p, last (p # t)) # zip t (p # butlast t)))"
    unfolding r q crossings_edges zip_butlast_snoc by simp
  ultimately show ?thesis
    by (simp only: inRing_loop_eq) simp
qed

lemma first_ring_error_None:
  "first_ring_error poly = None \<Longrightarrow> r \<in> set poly \<Longrightarrow> last r = hd r \<and> 2 \<le> length r"
  by (induction poly) (auto split: if_splits)


lemma strictly_inside_accepted:
  assumes valid: "turf_polygon poly = Inr poly'"
    and ins: "strictly_inside pt poly"
  shows "pointInPolygon_model pt poly"
proof -
  from valid have none: "first_ring_error poly = None"
    by (auto simp: turf_polygon_def split: option.splits)
  from ins obtain outer holes where poly: "poly = outer # holes"
    by (cases poly) (auto simp: strictly_inside_def)
  from ins have off: "\<And>r. r \<in> set poly \<Longrightarrow> \<not> on_ring pt r"
    by (auto simp: strictly_inside_def poly on_boundary_def list_ex_iff)
  have ring: "\<And>r ib. r \<in> set poly \<Longrightarrow> inRing pt r ib = odd (crossings pt r)"
    using first_ring_error_None [OF none] off by (simp add: inRing_closed)
  from ins show ?thesis
    by (auto simp: pointInPolygon_model_def strictly_inside_def poly list_ex_iff list_all_iff ring)
qed





text \<open>
  C9. The loop of the sampler has no bound and no failure exit: on a polygon that
  \<open>turf.polygon\<close> accepts and that has a position, when no draw falls on an accepted
  position and at least one point is asked for, the sampler does not return.
  Here \<open>rnd (2 * i)\<close> and \<open>rnd (2 * i + 1)\<close> are the two draws of iteration \<open>i\<close>.
\<close>

theorem sampler_does_not_return_when_draws_miss:
  assumes "1 \<le> count"
    and "turf_polygon polygon = Inr turfPolygon"
    and "turf_bbox turfPolygon = Some bb"
    and "\<forall>i. \<not> booleanPointInPolygon tf
            (bbox0 bb + rnd (2 * i) * (bbox2 bb - bbox0 bb),
             bbox1 bb + rnd (2 * i + 1) * (bbox3 bb - bbox1 bb))
            turfPolygon"
  shows "generateRandomPointsInPolygon tf rnd polygon count = None"
proof (cases "generateRandomPointsInPolygon tf rnd polygon count")
  case None
  then show ?thesis .
next
  case (Some res)
  with assms have "sample_loop tf turfPolygon (Some bb) rnd count 0 [] = Some res"
    by (simp add: generateRandomPointsInPolygon_def)
  from sample_loop_stuck [OF _ this] assms show ?thesis by simp
qed

theorem sampler_does_not_return_when_draws_miss_witness:
  "(1 :: real) \<le> 1
   \<and> turf_polygon triangle = Inr triangle
   \<and> turf_bbox triangle = Some (0, 0, 8, 8)
   \<and> \<not> booleanPointInPolygon turf_model (6, 6) triangle
   \<and> generateRandomPointsInPolygon turf_model three_quarters triangle 1 = None"
proof -
  have valid: "turf_polygon triangle = Inr triangle"
    by (simp add: turf_polygon_def triangle_def)
  have box: "turf_bbox triangle = Some (0, 0, 8, 8)"
    by (simp add: turf_bbox_def triangle_def)
  have miss: "\<forall>i. \<not> booleanPointInPolygon turf_model
            (bbox0 (0, 0, 8, 8) + three_quarters (2 * i) * (bbox2 (0, 0, 8, 8) - bbox0 (0, 0, 8, 8)),
             bbox1 (0, 0, 8, 8)
               + three_quarters (2 * i + 1) * (bbox3 (0, 0, 8, 8) - bbox1 (0, 0, 8, 8)))
            triangle"
    by (simp add: turf_eval triangle_def three_quarters_def)
  have out: "\<not> booleanPointInPolygon turf_model (6, 6) triangle"
    by (simp add: turf_eval triangle_def)
  have "(1 :: real) \<le> 1" by simp
  from sampler_does_not_return_when_draws_miss [OF this valid box miss] valid box out
  show ?thesis by simp
qed

section \<open>Properties of the route generator\<close>

subsection \<open>The requests and the candidates\<close>

lemma getDirections_snd:
  "snd (getDirections c start wps prof net)
     = net\<lparr>requests := requests net @ [directions_url c start wps prof]\<rparr>"
  by (simp add: getDirections_def fetch_def Let_def split: prod.splits)

lemma getIsochrone_snd:
  "snd (getIsochrone c x y minutes net)
     = net\<lparr>requests := requests net @ [isochrone_url c x y minutes]\<rparr>"
  by (simp add: getIsochrone_def fetch_def Let_def split: prod.splits)

lemma getDirections_Inr:
  "fst (getDirections c start wps prof net) = Inr d \<Longrightarrow> \<exists>r rs. body_routes d = Some (r # rs)"
  by (auto simp: getDirections_def fetch_def Let_def neq_Nil_conv
      split: sum.splits prod.splits if_splits)

lemma requestRoutes_snd:
  "snd (requestRoutes c start wpss net)
     = net\<lparr>requests := requests net @ map (\<lambda>w. directions_url c start w walking) wpss\<rparr>"
proof (induction wpss arbitrary: net)
  case Nil
  show ?case by simp
next
  case (Cons w wpss)
  obtain res net' where g: "getDirections c start w walking net = (res, net')"
    by (cases "getDirections c start w walking net")
  then have net': "net' = net\<lparr>requests := requests net @ [directions_url c start w walking]\<rparr>"
    using getDirections_snd [of c start w walking net] by simp
  show ?case
    using Cons.IH [of net'] g net'
    by (cases res) (auto split: prod.splits)
qed

lemma requestRoutes_routes:
  "d \<in> set (fst (requestRoutes c start wpss net)) \<Longrightarrow> \<exists>r rs. body_routes d = Some (r # rs)"
proof (induction wpss arbitrary: net)
  case Nil
  then show ?case by simp
next
  case (Cons w wpss)
  obtain res net' where g: "getDirections c start w walking net = (res, net')"
    by (cases "getDirections c start w walking net")
  show ?case
  proof (cases res)
    case (Inl err)
    with Cons.prems g have "d \<in> set (fst (requestRoutes c start wpss net'))" by simp
    then show ?thesis by (rule Cons.IH)
  next
    case (Inr result)
    with Cons.prems g have "d = result \<or> d \<in> set (fst (requestRoutes c start wpss net'))"
      by (auto split: prod.splits)
    then show ?thesis
    proof
      assume "d = result"
      with g Inr getDirections_Inr [of c start w walking net d] show ?thesis by simp
    next
      assume "d \<in> set (fst (requestRoutes c start wpss net'))"
      then show ?thesis by (rule Cons.IH)
    qed
  qed
qed

lemma requestRoutes_length:
  "length (fst (requestRoutes c start wpss net)) \<le> length wpss"
proof (induction wpss arbitrary: net)
  case Nil
  show ?case by simp
next
  case (Cons w wpss)
  obtain res net' where g: "getDirections c start w walking net = (res, net')"
    by (cases "getDirections c start w walking net")
  show ?case
    using Cons.IH [of net'] g
    by (cases res) (auto split: prod.splits intro: le_SucI)
qed



lemma processRoutes_Inr:
  assumes "\<forall>d \<in> set resps. \<exists>r rs. body_routes d = Some (r # rs)"
  shows "\<exists>allRoutes. processRoutes rw i resps = Inr allRoutes
           \<and> length allRoutes = length resps
           \<and> (\<forall>j < length resps.
                 route_id (allRoutes ! j) = i + j
               \<and> distance (allRoutes ! j) = rj_distance (hd (the (body_routes (resps ! j))))
               \<and> duration (allRoutes ! j) = rj_duration (hd (the (body_routes (resps ! j))))
               \<and> coordinates (allRoutes ! j) = rj_coordinates (hd (the (body_routes (resps ! j))))
               \<and> waypoints (allRoutes ! j)
                   = (if i + j < length rw then Some (rw ! (i + j)) else None)
               \<and> elevationDifference (allRoutes ! j)
                   = Some (estimateElevationDifference
                             (rj_distance (hd (the (body_routes (resps ! j)))))))"
  using assms
proof (induction resps arbitrary: i)
  case Nil
  show ?case by simp
next
  case (Cons d resps)
  from Cons.prems obtain r rs where d: "body_routes d = Some (r # rs)" by auto
  from Cons.prems have "\<forall>d \<in> set resps. \<exists>r rs. body_routes d = Some (r # rs)" by simp
  from Cons.IH [OF this, of "Suc i"] obtain rest where
    rest: "processRoutes rw (Suc i) resps = Inr rest" "length rest = length resps"
      and each: "\<And>j. j < length resps \<Longrightarrow>
                 route_id (rest ! j) = Suc i + j
               \<and> distance (rest ! j) = rj_distance (hd (the (body_routes (resps ! j))))
               \<and> duration (rest ! j) = rj_duration (hd (the (body_routes (resps ! j))))
               \<and> coordinates (rest ! j) = rj_coordinates (hd (the (body_routes (resps ! j))))
               \<and> waypoints (rest ! j)
                   = (if Suc i + j < length rw then Some (rw ! (Suc i + j)) else None)
               \<and> elevationDifference (rest ! j)
                   = Some (estimateElevationDifference
                             (rj_distance (hd (the (body_routes (resps ! j))))))"
    by blast
  show ?case
  proof (intro exI conjI allI impI)
    show "processRoutes rw i (d # resps)
            = Inr (\<lparr>route_id = i, distance = rj_distance r, duration = rj_duration r,
                     coordinates = rj_coordinates r,
                     waypoints = (if i < length rw then Some (rw ! i) else None),
                     elevationDifference = Some (estimateElevationDifference (rj_distance r))\<rparr>
                   # rest)"
      using d rest by simp
  next
    show "length (\<lparr>route_id = i, distance = rj_distance r, duration = rj_duration r,
                     coordinates = rj_coordinates r,
                     waypoints = (if i < length rw then Some (rw ! i) else None),
                     elevationDifference = Some (estimateElevationDifference (rj_distance r))\<rparr>
                   # rest) = length (d # resps)"
      using rest by simp
  next
    fix j assume "j < length (d # resps)"
    then show "route_id ((\<lparr>route_id = i, distance = rj_distance r, duration = rj_duration r,
                     coordinates = rj_coordinates r,
                     waypoints = (if i < length rw then Some (rw ! i) else None),
                     elevationDifference = Some (estimateElevationDifference (rj_distance r))\<rparr>
                   # rest) ! j) = i + j"
      using each [of "j - 1"] by (cases j) simp_all
  qed (insert d each, auto simp: nth_Cons split: nat.splits)
qed

lemma pairWaypoints_pairs:
  "w \<in> set (pairWaypoints pts) \<Longrightarrow> \<exists>p q. w = [p, q]"
  by (induction pts rule: pairWaypoints.induct) auto

lemma pairWaypoints_length: "length (pairWaypoints pts) = length pts div 2"
  by (induction pts rule: pairWaypoints.induct) auto

lemma pairWaypoints_nth:
  "k < length pts div 2 \<Longrightarrow> pairWaypoints pts ! k = [pts ! (2 * k), pts ! (2 * k + 1)]"
proof (induction pts arbitrary: k rule: pairWaypoints.induct)
  case (1 p q rest)
  then show ?case by (cases k) simp_all
qed simp_all

lemma on_map_fields [simp]:
  "waypointMarkers (on_map f s) = waypointMarkers s"
  "lng (on_map f s) = lng s"
  "lat (on_map f s) = lat s"
  "loading (on_map f s) = loading s"
  "isochroneData (on_map f s) = isochroneData s"
  "routes (on_map f s) = routes s"
  "activeRouteIndex (on_map f s) = activeRouteIndex s"
  "error (on_map f s) = error s"
  "walkDuration (on_map f s) = walkDuration s"
  "debugInfo (on_map f s) = debugInfo s"
  "map_current (on_map f s) = map_option f (map_current s)"
  by (simp_all add: on_map_def)

text \<open>Adding routes that carry two waypoints each does not throw, and touches only the map and the markers.\<close>

lemma addRoutes_ok:
  assumes "\<forall>r \<in> set rs. \<exists>w1 w2 ws. waypoints r = Some (w1 # w2 # ws)"
  shows "fst (addRoutes i rs s) = None
         \<and> routes (snd (addRoutes i rs s)) = routes s
         \<and> error (snd (addRoutes i rs s)) = error s
         \<and> loading (snd (addRoutes i rs s)) = loading s
         \<and> debugInfo (snd (addRoutes i rs s)) = debugInfo s
         \<and> isochroneData (snd (addRoutes i rs s)) = isochroneData s
         \<and> activeRouteIndex (snd (addRoutes i rs s)) = activeRouteIndex s
         \<and> (map_current (snd (addRoutes i rs s)) = None \<longleftrightarrow> map_current s = None)
         \<and> map_option layers (map_current (snd (addRoutes i rs s)))
             = map_option (\<lambda>m. layers m @ map route_layer [i..<i + length rs]) (map_current s)
         \<and> waypointMarkers (snd (addRoutes i rs s))
             = waypointMarkers s @ concat (map (\<lambda>r. take 2 (the (waypoints r))) rs)"
  using assms
proof (induction rs arbitrary: i s)
  case Nil
  show ?case by (simp add: option.map_ident)
next
  case (Cons r rs)
  from Cons.prems obtain w1 w2 ws where w: "waypoints r = Some (w1 # w2 # ws)" by auto
  let ?s1 = "on_map (addLayer (route_layer i) \<circ> addSource (route_layer i)) s"
  let ?s2 = "?s1\<lparr>waypointMarkers := waypointMarkers ?s1 @ [w1, w2]\<rparr>"
  have step: "addRoute i r s = (None, ?s2)"
    using w by (simp add: addRoute_def Let_def)
  from Cons.prems have "\<forall>r \<in> set rs. \<exists>w1 w2 ws. waypoints r = Some (w1 # w2 # ws)" by simp
  note IH = Cons.IH [OF this, of "Suc i" ?s2]
  have upt: "[i..<i + length (r # rs)] = i # [Suc i..<Suc i + length rs]"
    by (simp add: upt_conv_Cons del: upt_Suc)
  show ?case
    unfolding upt using IH step w
    by (cases "map_current s") (simp_all add: addLayer_def addSource_def)
qed

subsection \<open>Showing the routes\<close>

lemma addRoutesToMap_ok:
  assumes "\<forall>r \<in> set rs. \<exists>w1 w2 ws. waypoints r = Some (w1 # w2 # ws)"
    and "map_current s \<noteq> None"
  shows "fst (addRoutesToMap rs s) = None
         \<and> routes (snd (addRoutesToMap rs s)) = rs
         \<and> error (snd (addRoutesToMap rs s)) = error s
         \<and> loading (snd (addRoutesToMap rs s)) = loading s
         \<and> debugInfo (snd (addRoutesToMap rs s)) = debugInfo s
         \<and> isochroneData (snd (addRoutesToMap rs s)) = isochroneData s
         \<and> activeRouteIndex (snd (addRoutesToMap rs s)) = activeRouteIndex s
         \<and> map_current (snd (addRoutesToMap rs s)) \<noteq> None
         \<and> map_option layers (map_current (snd (addRoutesToMap rs s)))
             = map_option (\<lambda>m. layers m @ map route_layer [0..<length rs]) (map_current s)
         \<and> waypointMarkers (snd (addRoutesToMap rs s))
             = waypointMarkers s @ concat (map (\<lambda>r. take 2 (the (waypoints r))) rs)"
proof -
  obtain thrown s' where a: "addRoutes 0 rs s = (thrown, s')"
    by (cases "addRoutes 0 rs s")
  with addRoutes_ok [OF assms(1), of 0 s] have "thrown = None" by simp
  with a assms(2) have "addRoutesToMap rs s = (None, s'\<lparr>routes := rs\<rparr>)"
    by (auto simp: addRoutesToMap_def)
  with addRoutes_ok [OF assms(1), of 0 s] a assms(2) show ?thesis by simp
qed

lemma filterRoutesByDuration_eq:
  "filterRoutesByDuration rs maxDuration = filter (\<lambda>r. duration r \<le> maxDuration * 60) rs"
  by (simp add: filterRoutesByDuration_def)

lemma displayRoutes_ok:
  assumes "\<forall>r \<in> set rs. \<exists>w1 w2 ws. waypoints r = Some (w1 # w2 # ws)"
    and "map_current s \<noteq> None"
  shows "fst (displayRoutes c wd rs s) = None
         \<and> routes (snd (displayRoutes c wd rs s)) = (if rs = [] then routes s else take 3 rs)
         \<and> error (snd (displayRoutes c wd rs s))
             = (if rs = [] then
                  Some (''Could not find any routes within '' @ toStr c wd
                    @ '' minutes. Try increasing the duration or selecting a different starting point.'')
                else if length rs < 3 then
                  Some (''Could only find '' @ show_nat (length rs)
                    @ '' routes within '' @ toStr c wd @ '' minutes. Try increasing the duration.'')
                else error s)
         \<and> loading (snd (displayRoutes c wd rs s)) = loading s
         \<and> debugInfo (snd (displayRoutes c wd rs s)) = debugInfo s
         \<and> isochroneData (snd (displayRoutes c wd rs s)) = isochroneData s
         \<and> activeRouteIndex (snd (displayRoutes c wd rs s)) = activeRouteIndex s
         \<and> map_current (snd (displayRoutes c wd rs s)) \<noteq> None
         \<and> map_option layers (map_current (snd (displayRoutes c wd rs s)))
             = map_option (\<lambda>m. layers m @ map route_layer [0..<length (take 3 rs)]) (map_current s)
         \<and> waypointMarkers (snd (displayRoutes c wd rs s))
             = waypointMarkers s @ concat (map (\<lambda>r. take 2 (the (waypoints r))) (take 3 rs))"
proof -
  consider "rs = []" | "rs \<noteq> []" "length rs < 3" | "3 \<le> length rs" by fastforce
  then show ?thesis
  proof cases
    case 1
    then show ?thesis using assms(2) by (simp add: displayRoutes_def option.map_ident)
  next
    case 2
    let ?s = "s\<lparr>error := Some (''Could only find '' @ show_nat (length rs)
             @ '' routes within '' @ toStr c wd @ '' minutes. Try increasing the duration.'')\<rparr>"
    from 2 have d: "displayRoutes c wd rs s = addRoutesToMap rs ?s"
      by (cases rs) (simp_all add: displayRoutes_def)
    from assms(2) have "map_current ?s \<noteq> None" by simp
    from addRoutesToMap_ok [OF assms(1) this] 2 show ?thesis
      unfolding d by simp
  next
    case 3
    then have ne: "rs \<noteq> []" "\<not> length rs < 3" "length (take 3 rs) = 3"
      by auto
    then have d: "displayRoutes c wd rs s = addRoutesToMap (take 3 rs) s"
      by (simp add: displayRoutes_def)
    from assms(1) have "\<forall>r \<in> set (take 3 rs). \<exists>w1 w2 ws. waypoints r = Some (w1 # w2 # ws)"
      by (meson in_set_takeD)
    from addRoutesToMap_ok [OF this assms(2)] ne show ?thesis
      unfolding d by simp
  qed
qed

lemma displayRoutes_fields:
  assumes "\<forall>r \<in> set rs. \<exists>w1 w2 ws. waypoints r = Some (w1 # w2 # ws)"
    and "map_current s \<noteq> None"
  shows "fst (displayRoutes c wd rs s) = None"
    and "routes (snd (displayRoutes c wd rs s)) = (if rs = [] then routes s else take 3 rs)"
    and "error (snd (displayRoutes c wd rs s))
             = (if rs = [] then
                  Some (''Could not find any routes within '' @ toStr c wd
                    @ '' minutes. Try increasing the duration or selecting a different starting point.'')
                else if length rs < 3 then
                  Some (''Could only find '' @ show_nat (length rs)
                    @ '' routes within '' @ toStr c wd @ '' minutes. Try increasing the duration.'')
                else error s)"
    and "loading (snd (displayRoutes c wd rs s)) = loading s"
  using displayRoutes_ok [OF assms, of c wd] by blast+

subsection \<open>Clearing the map\<close>

lemma filter_absent: "x \<notin> set xs \<Longrightarrow> filter (\<lambda>l. l \<noteq> x) xs = xs"
  by (induction xs) auto

lemma guarded_removeLayer:
  "(if getLayer m ident then removeLayer ident m else m) = removeLayer ident m"
  by (simp add: getLayer_def removeLayer_def filter_absent)

lemma guarded_removeSource:
  "(if getSource m ident then removeSource ident m else m) = removeSource ident m"
  by (simp add: getSource_def removeSource_def filter_absent)

lemma clearRoute_eq: "clearRoute i m = removeSource (route_layer i) (removeLayer (route_layer i) m)"
  by (simp add: clearRoute_def Let_def guarded_removeLayer guarded_removeSource)

lemma fold_clearRoute:
  "layers (fold clearRoute is m) = filter (\<lambda>l. l \<notin> route_layer ` set is) (layers m)
   \<and> sources (fold clearRoute is m) = filter (\<lambda>l. l \<notin> route_layer ` set is) (sources m)
   \<and> fitted (fold clearRoute is m) = fitted m"
proof (induction "is" arbitrary: m)
  case Nil
  show ?case by simp
next
  case (Cons i "is")
  show ?case
    using Cons.IH [of "clearRoute i m"]
    by (auto simp: clearRoute_eq removeLayer_def removeSource_def conj_commute intro: filter_cong)
qed

text \<open>
  With a map, \<open>clearMapLayers\<close> removes the isochrone layers and source, the layers and
  sources \<open>route-0\<close> to \<open>route-9\<close>, and every waypoint marker.
\<close>

lemma clearMapLayers_initialized:
  assumes "map_current s = Some m"
  shows "clearMapLayers s
    = s\<lparr>map_current := Some
           (m\<lparr>layers := filter (\<lambda>l. l \<notin> set (''isochrone-fill'' # ''isochrone-line''
                                               # map route_layer [0..<10])) (layers m),
              sources := filter (\<lambda>l. l \<notin> set (''isochrone'' # map route_layer [0..<10]))
                           (sources m)\<rparr>),
         waypointMarkers := []\<rparr>"
proof -
  let ?m3 = "removeSource ''isochrone''
               (removeLayer ''isochrone-line'' (removeLayer ''isochrone-fill'' m))"
  have "fold clearRoute [0..<10] ?m3
    = m\<lparr>layers := filter (\<lambda>l. l \<notin> set (''isochrone-fill'' # ''isochrone-line''
                                            # map route_layer [0..<10])) (layers m),
         sources := filter (\<lambda>l. l \<notin> set (''isochrone'' # map route_layer [0..<10]))
                      (sources m)\<rparr>"
    using fold_clearRoute [of "[0..<10]" ?m3]
    by (intro mapbox_map.equality)
       (auto simp: removeLayer_def removeSource_def conj_commute intro: filter_cong)
  then show ?thesis
    using assms
    by (simp add: clearMapLayers_def Let_def guarded_removeLayer guarded_removeSource)
qed

subsection \<open>The body of the try block\<close>

lemma candidates_have_pairs:
  assumes proc: "processRoutes (pairWaypoints pts) 0 resps = Inr allRoutes"
    and ok: "\<forall>d \<in> set resps. \<exists>r rs. body_routes d = Some (r # rs)"
    and len: "length resps \<le> length (pairWaypoints pts)"
  shows "\<forall>r \<in> set allRoutes. \<exists>w1 w2 ws. waypoints r = Some (w1 # w2 # ws)"
proof
  fix r assume "r \<in> set allRoutes"
  then obtain j where j: "j < length allRoutes" "r = allRoutes ! j"
    by (auto simp: in_set_conv_nth)
  from processRoutes_Inr [OF ok, of "pairWaypoints pts" 0] proc
  have l: "length allRoutes = length resps"
    and w: "\<And>j. j < length resps \<Longrightarrow> waypoints (allRoutes ! j)
              = (if j < length (pairWaypoints pts) then Some (pairWaypoints pts ! j) else None)"
    by auto
  from j l len have jl: "j < length (pairWaypoints pts)" by simp
  then have "pairWaypoints pts ! j \<in> set (pairWaypoints pts)" by simp
  then obtain p q where "pairWaypoints pts ! j = [p, q]"
    using pairWaypoints_pairs by blast
  with w [of j] j l jl show "\<exists>w1 w2 ws. waypoints r = Some (w1 # w2 # ws)" by simp
qed

lemma generateRoutes_try_isochrone_fails:
  assumes "fst (getIsochrone (env_config e) (lng s) (lat s) (halfDuration (walkDuration s)) net) = Inl err"
  shows "generateRoutes_try e s net
    = Some (Some err,
            s\<lparr>debugInfo := Some (''Using '' @ show_int (halfDuration (walkDuration s))
                  @ '' min isochrone for '' @ toStr (env_config e) (walkDuration s)
                  @ '' min total walk'')\<rparr>,
            snd (getIsochrone (env_config e) (lng s) (lat s) (halfDuration (walkDuration s)) net))"
  using assms
  by (cases "getIsochrone (env_config e) (lng s) (lat s) (halfDuration (walkDuration s)) net")
     (simp add: generateRoutes_try_def Let_def)




subsection \<open>Runs of generateRoutes\<close>

text \<open>The state in which the try block starts, when there is a map.\<close>

lemma generateRoutes_initialized:
  assumes "map_current s = Some m"
  shows "generateRoutes e s net =
    (case generateRoutes_try e
            (s\<lparr>loading := True, error := None, debugInfo := None, routes := [],
               activeRouteIndex := ''0'',
               map_current := Some
                 (m\<lparr>layers := filter (\<lambda>l. l \<notin> set (''isochrone-fill'' # ''isochrone-line''
                                                     # map route_layer [0..<10])) (layers m),
                    sources := filter (\<lambda>l. l \<notin> set (''isochrone'' # map route_layer [0..<10]))
                                 (sources m)\<rparr>),
               waypointMarkers := []\<rparr>) net of
       None \<Rightarrow> None
     | Some (thrown, s', net') \<Rightarrow>
         Some ((case thrown of
                  Some err \<Rightarrow> s'\<lparr>error := Some (''Failed to generate routes: '' @ message err)\<rparr>
                | None \<Rightarrow> s')\<lparr>loading := False\<rparr>, net'))"
proof -
  let ?s = "s\<lparr>loading := True, error := None, debugInfo := None, routes := [],
              activeRouteIndex := ''0''\<rparr>"
  from assms have "map_current ?s = Some m" by simp
  note cl = clearMapLayers_initialized [OF this]
  show ?thesis
    by (simp only: generateRoutes_def Let_def assms option.case cl)
qed

lemma generateRoutes_isochrone_fails:
  assumes init: "map_current s = Some m"
    and fail: "fst (getIsochrone (env_config e) (lng s) (lat s) (halfDuration (walkDuration s)) net)
                 = Inl err"
  shows "generateRoutes e s net =
    Some (s\<lparr>loading := False,
            error := Some (''Failed to generate routes: '' @ message err),
            debugInfo := Some (''Using '' @ show_int (halfDuration (walkDuration s))
                  @ '' min isochrone for '' @ toStr (env_config e) (walkDuration s)
                  @ '' min total walk''),
            routes := [],
            activeRouteIndex := ''0'',
            map_current := Some
              (m\<lparr>layers := filter (\<lambda>l. l \<notin> set (''isochrone-fill'' # ''isochrone-line''
                                                  # map route_layer [0..<10])) (layers m),
                 sources := filter (\<lambda>l. l \<notin> set (''isochrone'' # map route_layer [0..<10]))
                              (sources m)\<rparr>),
            waypointMarkers := []\<rparr>,
          net\<lparr>requests := requests net
                 @ [isochrone_url (env_config e) (lng s) (lat s) (halfDuration (walkDuration s))]\<rparr>)"
proof -
  let ?s0 = "s\<lparr>loading := True, error := None, debugInfo := None, routes := [],
               activeRouteIndex := ''0'',
               map_current := Some
                 (m\<lparr>layers := filter (\<lambda>l. l \<notin> set (''isochrone-fill'' # ''isochrone-line''
                                                     # map route_layer [0..<10])) (layers m),
                    sources := filter (\<lambda>l. l \<notin> set (''isochrone'' # map route_layer [0..<10]))
                                 (sources m)\<rparr>),
               waypointMarkers := []\<rparr>"
  from fail have "fst (getIsochrone (env_config e) (lng ?s0) (lat ?s0)
                         (halfDuration (walkDuration ?s0)) net) = Inl err"
    by simp
  from generateRoutes_try_isochrone_fails [OF this] show ?thesis
    unfolding generateRoutes_initialized [OF init]
    by (simp add: getIsochrone_snd)
qed





lemma generateRoutes_try_first_request:
  assumes "generateRoutes_try e s net = Some (thrown, s', net')"
  shows "\<exists>rest. requests net' = requests net
           @ isochrone_url (env_config e) (lng s) (lat s) (halfDuration (walkDuration s)) # rest"
proof -
  obtain res net1 where iso: "getIsochrone (env_config e) (lng s) (lat s)
                                (halfDuration (walkDuration s)) net = (res, net1)"
    by (cases "getIsochrone (env_config e) (lng s) (lat s) (halfDuration (walkDuration s)) net")
  with getIsochrone_snd [of "env_config e" "lng s" "lat s" "halfDuration (walkDuration s)" net]
  have net1: "requests net1 = requests net
           @ [isochrone_url (env_config e) (lng s) (lat s) (halfDuration (walkDuration s))]"
    by simp
  have later: "\<And>wpss. requests (snd (requestRoutes (env_config e) (lng s, lat s) wpss net1))
          = requests net1 @ map (\<lambda>w. directions_url (env_config e) (lng s, lat s) w walking) wpss"
    by (simp add: requestRoutes_snd)
  from assms have "net' = net1
      \<or> (\<exists>wpss results. requestRoutes (env_config e) (lng s, lat s) wpss net1 = (results, net'))"
    unfolding generateRoutes_try_def Let_def iso prod.case
    by (fastforce split: sum.splits option.splits list.splits prod.splits)
  then show ?thesis
  proof
    assume "net' = net1"
    with net1 show ?thesis by simp
  next
    assume "\<exists>wpss results. requestRoutes (env_config e) (lng s, lat s) wpss net1 = (results, net')"
    then obtain wpss results where
      "requestRoutes (env_config e) (lng s, lat s) wpss net1 = (results, net')" by blast
    then have "net' = snd (requestRoutes (env_config e) (lng s, lat s) wpss net1)" by simp
    with later [of wpss] net1 show ?thesis by simp
  qed
qed

lemma generateRoutes_first_request:
  assumes init: "map_current s \<noteq> None"
    and run: "generateRoutes e s net = Some (s', net')"
  shows "\<exists>rest. requests net' = requests net
           @ isochrone_url (env_config e) (lng s) (lat s) (halfDuration (walkDuration s)) # rest"
proof -
  from init obtain m where m: "map_current s = Some m" by auto
  define s0 where "s0 = s\<lparr>loading := True, error := None, debugInfo := None, routes := [],
               activeRouteIndex := ''0'',
               map_current := Some
                 (m\<lparr>layers := filter (\<lambda>l. l \<notin> set (''isochrone-fill'' # ''isochrone-line''
                                                     # map route_layer [0..<10])) (layers m),
                    sources := filter (\<lambda>l. l \<notin> set (''isochrone'' # map route_layer [0..<10]))
                                 (sources m)\<rparr>),
               waypointMarkers := []\<rparr>"
  have same: "lng s0 = lng s" "lat s0 = lat s" "walkDuration s0 = walkDuration s"
    by (simp_all add: s0_def)
  from run obtain thrown s1 where "generateRoutes_try e s0 net = Some (thrown, s1, net')"
    unfolding generateRoutes_initialized [OF m] s0_def [symmetric]
    by (auto split: option.splits)
  from generateRoutes_try_first_request [OF this] show ?thesis
    by (simp only: same)
qed

subsection \<open>The route layers follow the routes shown\<close>

lemma addRoutes_sources:
  assumes "\<forall>r \<in> set rs. \<exists>w1 w2 ws. waypoints r = Some (w1 # w2 # ws)"
  shows "map_option sources (map_current (snd (addRoutes i rs s)))
           = map_option (\<lambda>m. sources m @ map route_layer [i..<i + length rs]) (map_current s)
         \<and> map_option fitted (map_current (snd (addRoutes i rs s)))
           = map_option fitted (map_current s)"
  using assms
proof (induction rs arbitrary: i s)
  case Nil
  show ?case by (simp add: option.map_ident)
next
  case (Cons r rs)
  from Cons.prems obtain w1 w2 ws where w: "waypoints r = Some (w1 # w2 # ws)" by auto
  let ?s1 = "on_map (addLayer (route_layer i) \<circ> addSource (route_layer i)) s"
  let ?s2 = "?s1\<lparr>waypointMarkers := waypointMarkers ?s1 @ [w1, w2]\<rparr>"
  have step: "addRoute i r s = (None, ?s2)"
    using w by (simp add: addRoute_def Let_def)
  from Cons.prems have "\<forall>r \<in> set rs. \<exists>w1 w2 ws. waypoints r = Some (w1 # w2 # ws)" by simp
  note IH = Cons.IH [OF this, of "Suc i" ?s2]
  have upt: "[i..<i + length (r # rs)] = i # [Suc i..<Suc i + length rs]"
    by (simp add: upt_conv_Cons del: upt_Suc)
  show ?case
    unfolding upt using IH step w
    by (cases "map_current s") (simp_all add: addLayer_def addSource_def)
qed

lemma displayRoutes_map:
  assumes wps: "\<forall>r \<in> set rs. \<exists>w1 w2 ws. waypoints r = Some (w1 # w2 # ws)"
    and init: "map_current s = Some m"
  shows "\<exists>m'. map_current (snd (displayRoutes c wd rs s)) = Some m'
           \<and> layers m' = layers m @ map route_layer [0..<length (take 3 rs)]
           \<and> sources m' = sources m @ map route_layer [0..<length (take 3 rs)]
           \<and> fitted m' = fitted m"
    and "waypointMarkers (snd (displayRoutes c wd rs s))
           = waypointMarkers s @ concat (map (\<lambda>r. take 2 (the (waypoints r))) (take 3 rs))"
proof -
  have main: "map_option sources (map_current (snd (displayRoutes c wd rs s)))
                = Some (sources m @ map route_layer [0..<length (take 3 rs)])
            \<and> map_option fitted (map_current (snd (displayRoutes c wd rs s))) = Some (fitted m)"
  proof -
    consider "rs = []" | "rs \<noteq> []" "length rs < 3" | "3 \<le> length rs" by fastforce
    then show ?thesis
    proof cases
      case 1
      then show ?thesis using init by (simp add: displayRoutes_def)
    next
      case 2
      let ?s = "s\<lparr>error := Some (''Could only find '' @ show_nat (length rs)
               @ '' routes within '' @ toStr c wd @ '' minutes. Try increasing the duration.'')\<rparr>"
      from 2 have d: "displayRoutes c wd rs s = addRoutesToMap rs ?s"
        by (cases rs) (simp_all add: displayRoutes_def)
      obtain thrown s' where a: "addRoutes 0 rs ?s = (thrown, s')"
        by (cases "addRoutes 0 rs ?s")
      with addRoutes_ok [OF wps, of 0 ?s] have t: "thrown = None" by simp
      from a t init have "snd (addRoutesToMap rs ?s) = s'\<lparr>routes := rs\<rparr>"
        by (simp add: addRoutesToMap_def)
      with addRoutes_sources [OF wps, of 0 ?s] a init 2 show ?thesis
        unfolding d by simp
    next
      case 3
      then have ne: "rs \<noteq> []" "\<not> length rs < 3" "length (take 3 rs) = 3"
        by auto
      then have d: "displayRoutes c wd rs s = addRoutesToMap (take 3 rs) s"
        by (simp add: displayRoutes_def)
      from wps have wps3: "\<forall>r \<in> set (take 3 rs). \<exists>w1 w2 ws. waypoints r = Some (w1 # w2 # ws)"
        by (meson in_set_takeD)
      obtain thrown s' where a: "addRoutes 0 (take 3 rs) s = (thrown, s')"
        by (cases "addRoutes 0 (take 3 rs) s")
      with addRoutes_ok [OF wps3, of 0 s] have t: "thrown = None" by simp
      from a t init have "snd (addRoutesToMap (take 3 rs) s) = s'\<lparr>routes := take 3 rs\<rparr>"
        by (simp add: addRoutesToMap_def)
      with addRoutes_sources [OF wps3, of 0 s] a init show ?thesis
        unfolding d by simp
    qed
  qed
  from init have "map_current s \<noteq> None" by simp
  note d = displayRoutes_ok [OF wps this, of c wd]
  from d have l: "map_option layers (map_current (snd (displayRoutes c wd rs s)))
             = map_option (\<lambda>m. layers m @ map route_layer [0..<length (take 3 rs)]) (map_current s)"
    by blast
  from d show "waypointMarkers (snd (displayRoutes c wd rs s))
           = waypointMarkers s @ concat (map (\<lambda>r. take 2 (the (waypoints r))) (take 3 rs))"
    by blast
  from main l init show "\<exists>m'. map_current (snd (displayRoutes c wd rs s)) = Some m'
           \<and> layers m' = layers m @ map route_layer [0..<length (take 3 rs)]
           \<and> sources m' = sources m @ map route_layer [0..<length (take 3 rs)]
           \<and> fitted m' = fitted m"
    by (cases "map_current (snd (displayRoutes c wd rs s))") simp_all
qed

text \<open>
  From a state without route layers, routes or markers, the try block ends, whether it
  throws or not, in a state whose route layers, route sources and markers are those of
  the routes it shows.
\<close>

lemma isochrone_ids_not_route_ids:
  "''isochrone-fill'' \<notin> set (map route_layer is)"
  "''isochrone-line'' \<notin> set (map route_layer is)"
  "''isochrone'' \<notin> set (map route_layer is)"
  by (auto simp: route_layer_def)

lemma filter_route_ids:
  assumes "n \<le> 10"
  shows "filter (\<lambda>l. l \<in> set (map route_layer [0..<10])) (map route_layer [0..<n])
           = map route_layer [0..<n]"
  using assms by (auto simp: filter_id_conv)

lemma generateRoutes_try_consistent:
  assumes init: "map_current s = Some m"
    and clean: "filter (\<lambda>l. l \<in> set (map route_layer [0..<10])) (layers m) = []"
      "filter (\<lambda>l. l \<in> set (map route_layer [0..<10])) (sources m) = []"
      "routes s = []" "waypointMarkers s = []"
    and run: "generateRoutes_try e s net = Some (thrown, s1, net1)"
  shows "\<exists>m1. map_current s1 = Some m1
           \<and> filter (\<lambda>l. l \<in> set (map route_layer [0..<10])) (layers m1)
               = map route_layer [0..<length (routes s1)]
           \<and> filter (\<lambda>l. l \<in> set (map route_layer [0..<10])) (sources m1)
               = map route_layer [0..<length (routes s1)]
           \<and> waypointMarkers s1 = concat (map (\<lambda>r. take 2 (the (waypoints r))) (routes s1))
           \<and> length (routes s1) \<le> 3"
proof -
  let ?c = "env_config e" and ?wd = "walkDuration s"
  let ?R = "\<lambda>l. l \<in> set (map route_layer [0..<10])"
  let ?inv = "\<lambda>s1. \<exists>m1. map_current s1 = Some m1
           \<and> filter ?R (layers m1) = map route_layer [0..<length (routes s1)]
           \<and> filter ?R (sources m1) = map route_layer [0..<length (routes s1)]
           \<and> waypointMarkers s1 = concat (map (\<lambda>r. take 2 (the (waypoints r))) (routes s1))
           \<and> length (routes s1) \<le> 3"
  define s1' where "s1' = s\<lparr>debugInfo := Some (''Using '' @ show_int (halfDuration ?wd)
                  @ '' min isochrone for '' @ toStr ?c ?wd @ '' min total walk'')\<rparr>"
  have inv1: "?inv s1'"
    using init clean by (simp add: s1'_def)
  obtain res netI where iso: "getIsochrone ?c (lng s) (lat s) (halfDuration ?wd) net = (res, netI)"
    by (cases "getIsochrone ?c (lng s) (lat s) (halfDuration ?wd) net")
  show ?thesis
  proof (cases res)
    case (Inl err)
    from run have "s1 = s1'"
      by (simp only: generateRoutes_try_def Let_def iso Inl prod.case sum.case s1'_def [symmetric]
          option.inject prod.inject)
    with inv1 show ?thesis by simp
  next
    case (Inr body)
    define m3 where "m3 = (addLayer ''isochrone-line'' \<circ> addLayer ''isochrone-fill''
                             \<circ> addSource ''isochrone'') m"
    define s3 where "s3 = on_map (addLayer ''isochrone-line'' \<circ> addLayer ''isochrone-fill''
                       \<circ> addSource ''isochrone'')
       (s\<lparr>debugInfo := Some (''Using '' @ show_int (halfDuration ?wd)
                  @ '' min isochrone for '' @ toStr ?c ?wd @ '' min total walk''),
          isochroneData := Some body\<rparr>)"
    have m3: "map_current s3 = Some m3" "routes s3 = []" "waypointMarkers s3 = []"
      using init clean by (simp_all add: s3_def m3_def)
    have clean3: "filter ?R (layers m3) = []" "filter ?R (sources m3) = []"
      using clean isochrone_ids_not_route_ids [of "[0..<10]"]
      by (simp_all add: m3_def addLayer_def addSource_def)
    have inv3: "?inv s3"
      using m3 clean3 by simp
    note run' = run [unfolded generateRoutes_try_def Let_def iso Inr prod.case sum.case
        s3_def [symmetric]]
    show ?thesis
    proof (cases "\<exists>f fs pts. features body = Some (f # fs)
        \<and> generateRandomPointsInPolygon (env_turf e) (env_random e) (geometry f) 12
            = Some (Inr pts)")
      case False
      with run' have "s1 = s3"
        by (auto split: option.splits list.splits sum.splits)
      with inv3 show ?thesis by simp
    next
      case True
      then obtain f fs pts where feat: "features body = Some (f # fs)"
        and samp: "generateRandomPointsInPolygon (env_turf e) (env_random e) (geometry f) 12
                     = Some (Inr pts)"
        by blast
      obtain results net2 where
        req: "requestRoutes ?c (lng s, lat s) (pairWaypoints pts) netI = (results, net2)"
        by (cases "requestRoutes ?c (lng s, lat s) (pairWaypoints pts) netI")
      have ok: "\<forall>d \<in> set results. \<exists>r rs. body_routes d = Some (r # rs)"
        using requestRoutes_routes [of _ ?c "(lng s, lat s)" "pairWaypoints pts" netI] req by simp
      have len: "length results \<le> length (pairWaypoints pts)"
        using requestRoutes_length [of ?c "(lng s, lat s)" "pairWaypoints pts" netI] req by simp
      from processRoutes_Inr [OF ok, of "pairWaypoints pts" 0] obtain allRoutes where
        proc: "processRoutes (pairWaypoints pts) 0 results = Inr allRoutes"
        by blast
      let ?survivors = "filterRoutesByDuration allRoutes ?wd"
      have wps: "\<forall>r \<in> set ?survivors. \<exists>w1 w2 ws. waypoints r = Some (w1 # w2 # ws)"
        using candidates_have_pairs [OF proc ok len] by (simp add: filterRoutesByDuration_eq)
      from m3 have init3: "map_current s3 \<noteq> None" by simp
      note d = displayRoutes_fields [OF wps init3, of ?c ?wd]
      obtain t s4 where disp: "displayRoutes ?c ?wd ?survivors s3 = (t, s4)"
        by (cases "displayRoutes ?c ?wd ?survivors s3")
      from d(1) disp have t: "t = None" by simp
      from disp have s4: "s4 = snd (displayRoutes ?c ?wd ?survivors s3)" by simp
      from displayRoutes_map [OF wps m3(1), of ?c ?wd] obtain m4 where
        m4: "map_current s4 = Some m4"
          "layers m4 = layers m3 @ map route_layer [0..<length (take 3 ?survivors)]"
          "sources m4 = sources m3 @ map route_layer [0..<length (take 3 ?survivors)]"
        and mk: "waypointMarkers s4
           = waypointMarkers s3 @ concat (map (\<lambda>r. take 2 (the (waypoints r))) (take 3 ?survivors))"
        unfolding s4 by blast
      from d(2) m3 have r4: "routes s4 = take 3 ?survivors"
        unfolding s4 by simp
      have le: "length (take 3 ?survivors) \<le> 10" by simp
      have inv4: "?inv s4"
        using m4 mk r4 m3 clean3 filter_route_ids [OF le] by simp
      then have inv5: "?inv (on_map (fitBounds ring) s4)" for ring
        by (auto simp: fitBounds_def)
      from run' have "s1 = s4 \<or> (\<exists>ring. s1 = on_map (fitBounds ring) s4)"
        by (simp only: feat option.case list.case Let_def samp req prod.case proc sum.case disp t)
           (auto split: list.splits)
      with inv4 inv5 show ?thesis by blast
    qed
  qed
qed

subsection \<open>Runs on the concrete inputs\<close>

lemma upt_0_10: "[0..<10] = [0, 1, 2, 3, 4, 5, 6, 7, 8, 9]"
  by (simp add: upt_rec)

lemma five_candidates_waypoints:
  "\<forall>r \<in> set five_candidates. \<exists>w1 w2 ws. waypoints r = Some (w1 # w2 # ws)"
  by (simp add: five_candidates_def candidate_def)

lemma halfDuration_30: "halfDuration 30 = 15"
  by (simp add: halfDuration_def)

lemma isochrone_url_example:
  "isochrone_url example_config 1 2 15
     = ''https://api.mapbox.com/isochrone/v1/mapbox/walking/1,2?contours_minutes=15&polygons=true&access_token=pk.test''"
  by (simp add: isochrone_url_def example_config_def example_toStr_def show_int_def
      show_nat.simps digit_def)

lemma idle_fields:
  "map_current idle = Some blank_map" "lng idle = 1" "lat idle = 2" "walkDuration idle = 30"
  "routes idle = []"
  by (simp_all add: idle_def)

lemma showing_fields:
  "map_current showing = Some \<lparr>sources = [''route-0''], layers = [''route-0''], fitted = None\<rparr>"
  "lng showing = 1" "lat showing = 2" "walkDuration showing = 30"
  "routes showing = [candidate 0 600]" "waypointMarkers showing = [(1, 1), (2, 2)]"
  by (simp_all add: showing_def idle_def)

lemma example_env_fields:
  "env_config example_env = example_config" "env_turf example_env = turf_model"
  "env_random example_env = steady_draws"
  by (simp_all add: example_env_def)

lemma isochrone_provider_down:
  "fst (getIsochrone example_config 1 2 15 provider_down)
     = Inl (Error ''Failed to fetch isochrone: Failed to fetch'')"
  by (simp add: getIsochrone_def fetch_def provider_down_def Let_def)


lemma sample_twelve:
  "generateRandomPointsInPolygon turf_model steady_draws square 12 = Some (Inr twelve_points)"
  by (simp add: generateRandomPointsInPolygon_def sample_loop.simps turf_eval square_def
      steady_draws_def twelve_points_def)





lemmas run_eval =
  generateRoutes_def generateRoutes_try_def clearMapLayers_initialized addLayer_def
  addSource_def fitBounds_def on_map_def
  getIsochrone_def getDirections_def fetch_def isochrone_url_def directions_url_def
  directions_coordinates_def coordinate_string_def displayRoutes_def addRoutesToMap_def addRoute_def
  filterRoutesByDuration_def estimateElevationDifference_def route_layer_def halfDuration_def
  example_env_def example_config_def example_toStr_def show_int_def show_nat.simps digit_def
  idle_def blank_map_def isochrone_ok_def route_ok_def Let_def

lemma sample_twelve_points:
  "generateRandomPointsInPolygon turf_model steady_draws square 12
     = Some (Inr [(1, 2), (3, 4), (5, 6), (7, 1), (2, 3), (4, 5), (6, 7), (1, 2), (3, 4), (5, 6),
                  (7, 1), (2, 3)])"
  using sample_twelve by (simp add: twelve_points_def)

lemma run_first_route_fails:
  "map_option (\<lambda>(s', net'). (map (\<lambda>r. (distance r, waypoints r)) (routes s'),
                               requests net' ! 1, requests net' ! 2))
     (generateRoutes example_env idle first_route_fails)
   = Some ([(200, Some [(1, 2), (3, 4)]), (300, Some [(5, 6), (7, 1)])],
           ''https://api.mapbox.com/directions/v5/mapbox/walking/1,2;1,2;3,4;1,2?geometries=geojson&steps=true&alternatives=false&access_token=pk.test'',
           ''https://api.mapbox.com/directions/v5/mapbox/walking/1,2;5,6;7,1;1,2?geometries=geojson&steps=true&alternatives=false&access_token=pk.test'')"
  apply (simp add: run_eval first_route_fails_def sample_twelve_points upt_0_10)
  apply (simp add: square_def show_nat.simps digit_def)
  done

section \<open>The filter and the selector\<close>

text \<open>
  C1. The candidates are filtered by \<open>filterRoutesByDuration\<close> and shown by the branches
  that follow it in \<open>generateRoutes\<close>. On a map, with the shown routes cleared as
  \<open>generateRoutes\<close> clears them, and for candidates that carry their pair of waypoints:
  the survivors are exactly the candidates whose duration is at most \<open>maxMinutes * 60\<close>
  seconds, in their order; nothing is thrown; the routes shown are the first three
  survivors, so at most three, each a candidate within the budget.
\<close>

theorem selector_keeps_first_three_within_budget:
  assumes "map_current s \<noteq> None"
    and "routes s = []"
    and "\<forall>r \<in> set candidates. \<exists>w1 w2 ws. waypoints r = Some (w1 # w2 # ws)"
  shows "(let survivors = filterRoutesByDuration candidates maxMinutes;
              shown = routes (snd (displayRoutes c maxMinutes survivors s))
          in survivors = filter (\<lambda>r. duration r \<le> maxMinutes * 60) candidates
             \<and> subseq survivors candidates
             \<and> fst (displayRoutes c maxMinutes survivors s) = None
             \<and> shown = take 3 survivors
             \<and> length shown \<le> 3
             \<and> (\<forall>r \<in> set shown. r \<in> set candidates \<and> duration r \<le> maxMinutes * 60))"
proof -
  let ?survivors = "filterRoutesByDuration candidates maxMinutes"
  have eq: "?survivors = filter (\<lambda>r. duration r \<le> maxMinutes * 60) candidates"
    by (rule filterRoutesByDuration_eq)
  from assms(3) have wps: "\<forall>r \<in> set ?survivors. \<exists>w1 w2 ws. waypoints r = Some (w1 # w2 # ws)"
    by (simp add: eq)
  note d = displayRoutes_fields [OF wps assms(1), of c maxMinutes]
  note thrown = d(1)
  from d(2) assms(2) have shown:
    "routes (snd (displayRoutes c maxMinutes ?survivors s)) = take 3 ?survivors"
    by (simp split: if_splits)
  have sub: "subseq ?survivors candidates"
    unfolding eq by simp
  have len: "length (take 3 ?survivors) \<le> 3"
    by simp
  have each: "\<forall>r \<in> set (take 3 ?survivors). r \<in> set candidates \<and> duration r \<le> maxMinutes * 60"
  proof
    fix r assume "r \<in> set (take 3 ?survivors)"
    then have "r \<in> set ?survivors" by (rule in_set_takeD)
    then show "r \<in> set candidates \<and> duration r \<le> maxMinutes * 60"
      unfolding eq by simp
  qed
  show ?thesis
    unfolding Let_def shown
    using eq sub thrown len each by (intro conjI refl)
qed

text \<open>Five candidates of 600, 2400, 1200, 1800 and 900 seconds, and a budget of 30 minutes.\<close>

theorem selector_keeps_first_three_within_budget_witness:
  "map_current idle \<noteq> None \<and> routes idle = []
   \<and> filterRoutesByDuration five_candidates 30
       = [candidate 0 600, candidate 2 1200, candidate 3 1800, candidate 4 900]
   \<and> routes (snd (displayRoutes example_config 30 (filterRoutesByDuration five_candidates 30) idle))
       = [candidate 0 600, candidate 2 1200, candidate 3 1800]"
proof -
  have a: "map_current idle \<noteq> None" and b: "routes idle = []"
    by (simp_all add: idle_def)
  have f: "filterRoutesByDuration five_candidates 30
       = [candidate 0 600, candidate 2 1200, candidate 3 1800, candidate 4 900]"
    by (simp add: filterRoutesByDuration_def five_candidates_def candidate_def)
  from selector_keeps_first_three_within_budget
         [OF a b five_candidates_waypoints, of 30 example_config]
  have "routes (snd (displayRoutes example_config 30 (filterRoutesByDuration five_candidates 30) idle))
          = take 3 (filterRoutesByDuration five_candidates 30)"
    unfolding Let_def by (elim conjE)
  with a b f show ?thesis by simp
qed

section \<open>The waypoints of a candidate\<close>

text \<open>
  C2, at an input where the code departs from it. The isochrone request succeeds, the
  routing request of the first pair \<open>[(1, 2), (3, 4)]\<close> is rejected, and the later ones
  are answered; request \<open>2\<close>, made for the second pair \<open>[(5, 6), (7, 1)]\<close>, is answered
  with a route of 200 meters. The candidate of 200 meters that \<open>generateRoutes\<close> shows
  carries the first pair, whose request failed, and the candidate of 300 meters, answered
  to the third pair, carries the second pair: \<open>routePromises.forEach\<close> indexes
  \<open>routeWaypoints\<close> by the position among the successful responses.
\<close>

theorem candidate_carries_pair_of_skipped_request:
  "pairWaypoints twelve_points
     = [[(1, 2), (3, 4)], [(5, 6), (7, 1)], [(2, 3), (4, 5)], [(6, 7), (1, 2)], [(3, 4), (5, 6)],
        [(7, 1), (2, 3)]]
   \<and> respond first_route_fails 1 (directions_url example_config (1, 2) [(1, 2), (3, 4)] walking)
       = Inl (Error ''Failed to fetch'')
   \<and> respond first_route_fails 2 (directions_url example_config (1, 2) [(5, 6), (7, 1)] walking)
       = Inr (route_ok 2)
   \<and> json (route_ok 2)
       = Inr \<lparr>features = None,
               body_routes = Some [\<lparr>rj_distance = 200, rj_duration = 1200, rj_coordinates = []\<rparr>]\<rparr>
   \<and> map_option (\<lambda>(s', net'). (map (\<lambda>r. (distance r, waypoints r)) (routes s'),
                                 requests net' ! 1, requests net' ! 2))
         (generateRoutes example_env idle first_route_fails)
       = Some ([(200, Some [(1, 2), (3, 4)]), (300, Some [(5, 6), (7, 1)])],
               directions_url example_config (1, 2) [(1, 2), (3, 4)] walking,
               directions_url example_config (1, 2) [(5, 6), (7, 1)] walking)"
proof -
  have urls:
    "directions_url example_config (1, 2) [(1, 2), (3, 4)] walking
       = ''https://api.mapbox.com/directions/v5/mapbox/walking/1,2;1,2;3,4;1,2?geometries=geojson&steps=true&alternatives=false&access_token=pk.test''"
    "directions_url example_config (1, 2) [(5, 6), (7, 1)] walking
       = ''https://api.mapbox.com/directions/v5/mapbox/walking/1,2;5,6;7,1;1,2?geometries=geojson&steps=true&alternatives=false&access_token=pk.test''"
    by (simp_all add: directions_url_def directions_coordinates_def coordinate_string_def
        example_config_def example_toStr_def show_int_def show_nat.simps digit_def)
  have pairs: "pairWaypoints twelve_points
     = [[(1, 2), (3, 4)], [(5, 6), (7, 1)], [(2, 3), (4, 5)], [(6, 7), (1, 2)], [(3, 4), (5, 6)],
        [(7, 1), (2, 3)]]"
    by (simp add: twelve_points_def)
  have answers:
    "respond first_route_fails 1 (directions_url example_config (1, 2) [(1, 2), (3, 4)] walking)
       = Inl (Error ''Failed to fetch'')"
    "respond first_route_fails 2 (directions_url example_config (1, 2) [(5, 6), (7, 1)] walking)
       = Inr (route_ok 2)"
    "json (route_ok 2)
       = Inr \<lparr>features = None,
               body_routes = Some [\<lparr>rj_distance = 200, rj_duration = 1200, rj_coordinates = []\<rparr>]\<rparr>"
    by (simp_all add: first_route_fails_def route_ok_def)
  show ?thesis
    using pairs answers run_first_route_fails unfolding urls by (intro conjI)
qed

section \<open>Failures\<close>

text \<open>
  C4, as the code has it. Without a map, \<open>generateRoutes\<close> sets one message and changes
  nothing else. With a map, whenever the try block throws, the run ends with the single
  message \<open>Failed to generate routes: ...\<close> that holds the message of the error, no
  longer loading, and with route layers, route sources and markers that are exactly those
  of the routes it shows, at most three: no route layer is partial. The state before the
  run is not kept: \<open>generateRoutes\<close> clears the routes and the map before the try
  block. In particular, when the isochrone request fails, the try block throws after that
  single request, no route is shown, no marker is left, and the map has lost its isochrone
  layers and the layers and sources \<open>route-0\<close> to \<open>route-9\<close>.
\<close>

theorem failed_run_leaves_message_and_cleared_map:
  "(map_current s = None \<longrightarrow>
      generateRoutes e s net
        = Some (s\<lparr>error := Some ''Map is not initialized. Please refresh the page and try again.''\<rparr>,
                net))
   \<and> (\<forall>m. map_current s = Some m \<longrightarrow>
        (let s0 = clearMapLayers (s\<lparr>loading := True, error := None, debugInfo := None,
                                     routes := [], activeRouteIndex := ''0''\<rparr>)
         in (\<forall>err s1 net1.
               generateRoutes_try e s0 net = Some (Some err, s1, net1) \<longrightarrow>
               (\<exists>s' m'. generateRoutes e s net = Some (s', net1)
                  \<and> error s' = Some (''Failed to generate routes: '' @ message err)
                  \<and> loading s' = False
                  \<and> map_current s' = Some m'
                  \<and> filter (\<lambda>l. l \<in> set (map route_layer [0..<10])) (layers m')
                      = map route_layer [0..<length (routes s')]
                  \<and> filter (\<lambda>l. l \<in> set (map route_layer [0..<10])) (sources m')
                      = map route_layer [0..<length (routes s')]
                  \<and> waypointMarkers s'
                      = concat (map (\<lambda>r. take 2 (the (waypoints r))) (routes s'))
                  \<and> length (routes s') \<le> 3))
          \<and> (\<forall>err.
               fst (getIsochrone (env_config e) (lng s) (lat s) (halfDuration (walkDuration s)) net)
                 = Inl err \<longrightarrow>
               (\<exists>s1 s' m'.
                    generateRoutes_try e s0 net
                      = Some (Some err, s1, net\<lparr>requests := requests net
                          @ [isochrone_url (env_config e) (lng s) (lat s)
                               (halfDuration (walkDuration s))]\<rparr>)
                  \<and> generateRoutes e s net
                      = Some (s', net\<lparr>requests := requests net
                          @ [isochrone_url (env_config e) (lng s) (lat s)
                               (halfDuration (walkDuration s))]\<rparr>)
                  \<and> error s' = Some (''Failed to generate routes: '' @ message err)
                  \<and> loading s' = False
                  \<and> routes s' = []
                  \<and> waypointMarkers s' = []
                  \<and> map_current s' = Some m'
                  \<and> layers m' = filter (\<lambda>l. l \<notin> set (''isochrone-fill'' # ''isochrone-line''
                                                        # map route_layer [0..<10])) (layers m)
                  \<and> sources m' = filter (\<lambda>l. l \<notin> set (''isochrone'' # map route_layer [0..<10]))
                                    (sources m)))))"
proof (intro conjI impI allI)
  assume "map_current s = None"
  then show "generateRoutes e s net
        = Some (s\<lparr>error := Some ''Map is not initialized. Please refresh the page and try again.''\<rparr>,
                net)"
    by (simp add: generateRoutes_def)
next
  fix m assume init: "map_current s = Some m"
  define m0 where "m0 = m\<lparr>layers := filter (\<lambda>l. l \<notin> set (''isochrone-fill'' # ''isochrone-line''
                                                  # map route_layer [0..<10])) (layers m),
                 sources := filter (\<lambda>l. l \<notin> set (''isochrone'' # map route_layer [0..<10]))
                              (sources m)\<rparr>"
  define s0 where "s0 = s\<lparr>loading := True, error := None, debugInfo := None, routes := [],
               activeRouteIndex := ''0'', map_current := Some m0, waypointMarkers := []\<rparr>"
  have s0: "clearMapLayers (s\<lparr>loading := True, error := None, debugInfo := None,
                                     routes := [], activeRouteIndex := ''0''\<rparr>) = s0"
  proof -
    from init have "map_current (s\<lparr>loading := True, error := None, debugInfo := None,
                                     routes := [], activeRouteIndex := ''0''\<rparr>) = Some m"
      by simp
    from clearMapLayers_initialized [OF this] show ?thesis
      by (simp add: s0_def m0_def)
  qed
  have gen: "generateRoutes e s net =
    (case generateRoutes_try e s0 net of
       None \<Rightarrow> None
     | Some (thrown, s', net') \<Rightarrow>
         Some ((case thrown of
                  Some err \<Rightarrow> s'\<lparr>error := Some (''Failed to generate routes: '' @ message err)\<rparr>
                | None \<Rightarrow> s')\<lparr>loading := False\<rparr>, net'))"
    unfolding generateRoutes_initialized [OF init] s0_def m0_def ..
  have same: "lng s0 = lng s" "lat s0 = lat s" "walkDuration s0 = walkDuration s"
    by (simp_all add: s0_def)
  have init0: "map_current s0 = Some m0" "routes s0 = []" "waypointMarkers s0 = []"
    by (simp_all add: s0_def)
  have clean0: "filter (\<lambda>l. l \<in> set (map route_layer [0..<10])) (layers m0) = []"
    "filter (\<lambda>l. l \<in> set (map route_layer [0..<10])) (sources m0) = []"
    by (auto simp: m0_def filter_empty_conv)
  have any: "\<exists>s' m'. generateRoutes e s net = Some (s', net1)
                  \<and> error s' = Some (''Failed to generate routes: '' @ message err)
                  \<and> loading s' = False
                  \<and> map_current s' = Some m'
                  \<and> filter (\<lambda>l. l \<in> set (map route_layer [0..<10])) (layers m')
                      = map route_layer [0..<length (routes s')]
                  \<and> filter (\<lambda>l. l \<in> set (map route_layer [0..<10])) (sources m')
                      = map route_layer [0..<length (routes s')]
                  \<and> waypointMarkers s'
                      = concat (map (\<lambda>r. take 2 (the (waypoints r))) (routes s'))
                  \<and> length (routes s') \<le> 3"
    if run: "generateRoutes_try e s0 net = Some (Some err, s1, net1)" for err s1 net1
  proof -
    from generateRoutes_try_consistent [OF init0(1) clean0 init0(2,3) run]
    obtain m1 where inv: "map_current s1 = Some m1"
      "filter (\<lambda>l. l \<in> set (map route_layer [0..<10])) (layers m1)
         = map route_layer [0..<length (routes s1)]"
      "filter (\<lambda>l. l \<in> set (map route_layer [0..<10])) (sources m1)
         = map route_layer [0..<length (routes s1)]"
      "waypointMarkers s1 = concat (map (\<lambda>r. take 2 (the (waypoints r))) (routes s1))"
      "length (routes s1) \<le> 3"
      by blast
    define s' where "s' = s1\<lparr>error := Some (''Failed to generate routes: '' @ message err),
                             loading := False\<rparr>"
    have "generateRoutes e s net = Some (s', net1)"
      unfolding gen run s'_def by simp
    with inv show ?thesis
      by (intro exI [of _ s'], intro exI [of _ m1]) (simp add: s'_def)
  qed
  have iso_fail: "\<exists>s1 s' m'.
                    generateRoutes_try e s0 net
                      = Some (Some err, s1, net\<lparr>requests := requests net
                          @ [isochrone_url (env_config e) (lng s) (lat s)
                               (halfDuration (walkDuration s))]\<rparr>)
                  \<and> generateRoutes e s net
                      = Some (s', net\<lparr>requests := requests net
                          @ [isochrone_url (env_config e) (lng s) (lat s)
                               (halfDuration (walkDuration s))]\<rparr>)
                  \<and> error s' = Some (''Failed to generate routes: '' @ message err)
                  \<and> loading s' = False
                  \<and> routes s' = []
                  \<and> waypointMarkers s' = []
                  \<and> map_current s' = Some m'
                  \<and> layers m' = filter (\<lambda>l. l \<notin> set (''isochrone-fill'' # ''isochrone-line''
                                                        # map route_layer [0..<10])) (layers m)
                  \<and> sources m' = filter (\<lambda>l. l \<notin> set (''isochrone'' # map route_layer [0..<10]))
                                    (sources m)"
    if fail: "fst (getIsochrone (env_config e) (lng s) (lat s) (halfDuration (walkDuration s)) net)
                 = Inl err" for err
  proof -
    from fail have "fst (getIsochrone (env_config e) (lng s0) (lat s0)
                           (halfDuration (walkDuration s0)) net) = Inl err"
      by (simp only: same)
    from generateRoutes_try_isochrone_fails [OF this]
    have t: "generateRoutes_try e s0 net
      = Some (Some err,
            s0\<lparr>debugInfo := Some (''Using '' @ show_int (halfDuration (walkDuration s))
                  @ '' min isochrone for '' @ toStr (env_config e) (walkDuration s)
                  @ '' min total walk'')\<rparr>,
            net\<lparr>requests := requests net
                          @ [isochrone_url (env_config e) (lng s) (lat s)
                               (halfDuration (walkDuration s))]\<rparr>)"
      by (simp only: same getIsochrone_snd)
    define s1 where "s1 = s0\<lparr>debugInfo := Some (''Using '' @ show_int (halfDuration (walkDuration s))
                  @ '' min isochrone for '' @ toStr (env_config e) (walkDuration s)
                  @ '' min total walk'')\<rparr>"
    define s' where "s' = s1\<lparr>error := Some (''Failed to generate routes: '' @ message err),
                             loading := False\<rparr>"
    have g: "generateRoutes e s net
               = Some (s', net\<lparr>requests := requests net
                          @ [isochrone_url (env_config e) (lng s) (lat s)
                               (halfDuration (walkDuration s))]\<rparr>)"
      unfolding gen t s'_def s1_def by simp
    have fields: "error s' = Some (''Failed to generate routes: '' @ message err)"
      "loading s' = False" "routes s' = []" "waypointMarkers s' = []" "map_current s' = Some m0"
      by (simp_all add: s'_def s1_def s0_def)
    show ?thesis
    proof (rule exI [of _ s1], rule exI [of _ s'], rule exI [of _ m0], intro conjI)
      show "generateRoutes_try e s0 net
              = Some (Some err, s1, net\<lparr>requests := requests net
                          @ [isochrone_url (env_config e) (lng s) (lat s)
                               (halfDuration (walkDuration s))]\<rparr>)"
        unfolding t s1_def ..
    qed (simp_all add: g fields m0_def)
  qed
  show "let s0 = clearMapLayers (s\<lparr>loading := True, error := None, debugInfo := None,
                                     routes := [], activeRouteIndex := ''0''\<rparr>)
         in (\<forall>err s1 net1.
               generateRoutes_try e s0 net = Some (Some err, s1, net1) \<longrightarrow>
               (\<exists>s' m'. generateRoutes e s net = Some (s', net1)
                  \<and> error s' = Some (''Failed to generate routes: '' @ message err)
                  \<and> loading s' = False
                  \<and> map_current s' = Some m'
                  \<and> filter (\<lambda>l. l \<in> set (map route_layer [0..<10])) (layers m')
                      = map route_layer [0..<length (routes s')]
                  \<and> filter (\<lambda>l. l \<in> set (map route_layer [0..<10])) (sources m')
                      = map route_layer [0..<length (routes s')]
                  \<and> waypointMarkers s'
                      = concat (map (\<lambda>r. take 2 (the (waypoints r))) (routes s'))
                  \<and> length (routes s') \<le> 3))
          \<and> (\<forall>err.
               fst (getIsochrone (env_config e) (lng s) (lat s) (halfDuration (walkDuration s)) net)
                 = Inl err \<longrightarrow>
               (\<exists>s1 s' m'.
                    generateRoutes_try e s0 net
                      = Some (Some err, s1, net\<lparr>requests := requests net
                          @ [isochrone_url (env_config e) (lng s) (lat s)
                               (halfDuration (walkDuration s))]\<rparr>)
                  \<and> generateRoutes e s net
                      = Some (s', net\<lparr>requests := requests net
                          @ [isochrone_url (env_config e) (lng s) (lat s)
                               (halfDuration (walkDuration s))]\<rparr>)
                  \<and> error s' = Some (''Failed to generate routes: '' @ message err)
                  \<and> loading s' = False
                  \<and> routes s' = []
                  \<and> waypointMarkers s' = []
                  \<and> map_current s' = Some m'
                  \<and> layers m' = filter (\<lambda>l. l \<notin> set (''isochrone-fill'' # ''isochrone-line''
                                                        # map route_layer [0..<10])) (layers m)
                  \<and> sources m' = filter (\<lambda>l. l \<notin> set (''isochrone'' # map route_layer [0..<10]))
                                    (sources m)))"
    unfolding Let_def s0
    using any iso_fail by (intro conjI allI impI)
qed

text \<open>
  A component without a map; and a component that shows one route, on a network that
  rejects every request.
\<close>

theorem failed_run_leaves_message_and_cleared_map_witness:
  "map_current (idle\<lparr>map_current := None\<rparr>) = None
   \<and> map_option (error \<circ> fst) (generateRoutes example_env (idle\<lparr>map_current := None\<rparr>) provider_down)
       = Some (Some ''Map is not initialized. Please refresh the page and try again.'')
   \<and> map_current showing = Some \<lparr>sources = [''route-0''], layers = [''route-0''], fitted = None\<rparr>
   \<and> fst (getIsochrone example_config 1 2 15 provider_down)
       = Inl (Error ''Failed to fetch isochrone: Failed to fetch'')
   \<and> map_option (error \<circ> fst) (generateRoutes example_env showing provider_down)
       = Some (Some ''Failed to generate routes: Failed to fetch isochrone: Failed to fetch'')
   \<and> map_option (loading \<circ> fst) (generateRoutes example_env showing provider_down) = Some False
   \<and> map_option (routes \<circ> fst) (generateRoutes example_env showing provider_down) = Some []
   \<and> map_option (waypointMarkers \<circ> fst) (generateRoutes example_env showing provider_down) = Some []
   \<and> map_option (map_option layers \<circ> map_current \<circ> fst)
         (generateRoutes example_env showing provider_down) = Some (Some [])
   \<and> map_option (map_option sources \<circ> map_current \<circ> fst)
         (generateRoutes example_env showing provider_down) = Some (Some [])"
proof -
  note inst = failed_run_leaves_message_and_cleared_map
  have none: "map_current (idle\<lparr>map_current := None\<rparr>) = None" by simp
  from inst [of "idle\<lparr>map_current := None\<rparr>" example_env provider_down, THEN conjunct1,
      rule_format, OF none]
  have unmounted: "map_option (error \<circ> fst)
        (generateRoutes example_env (idle\<lparr>map_current := None\<rparr>) provider_down)
       = Some (Some ''Map is not initialized. Please refresh the page and try again.'')"
    by simp
  have fail: "fst (getIsochrone (env_config example_env) (lng showing) (lat showing)
                (halfDuration (walkDuration showing)) provider_down)
           = Inl (Error ''Failed to fetch isochrone: Failed to fetch'')"
    by (simp only: example_env_fields showing_fields halfDuration_30 isochrone_provider_down)
  note both = inst [of showing example_env provider_down, THEN conjunct2, rule_format,
      OF showing_fields(1), unfolded Let_def]
  from both [THEN conjunct2, rule_format, OF fail]
  obtain s1 s' m' where
    t: "generateRoutes_try example_env
          (clearMapLayers (showing\<lparr>loading := True, error := None, debugInfo := None,
                                     routes := [], activeRouteIndex := ''0''\<rparr>)) provider_down
        = Some (Some (Error ''Failed to fetch isochrone: Failed to fetch''), s1,
                provider_down\<lparr>requests := requests provider_down
                  @ [isochrone_url (env_config example_env) (lng showing) (lat showing)
                       (halfDuration (walkDuration showing))]\<rparr>)"
    and g: "generateRoutes example_env showing provider_down
        = Some (s', provider_down\<lparr>requests := requests provider_down
                  @ [isochrone_url (env_config example_env) (lng showing) (lat showing)
                       (halfDuration (walkDuration showing))]\<rparr>)"
    and f: "error s' = Some (''Failed to generate routes: ''
              @ message (Error ''Failed to fetch isochrone: Failed to fetch''))"
      "loading s' = False" "routes s' = []" "waypointMarkers s' = []" "map_current s' = Some m'"
    and l: "layers m' = filter (\<lambda>l. l \<notin> set (''isochrone-fill'' # ''isochrone-line''
                                             # map route_layer [0..<10]))
              (layers \<lparr>sources = [''route-0''], layers = [''route-0''], fitted = None\<rparr>)"
      "sources m' = filter (\<lambda>l. l \<notin> set (''isochrone'' # map route_layer [0..<10]))
              (sources \<lparr>sources = [''route-0''], layers = [''route-0''], fitted = None\<rparr>)"
    by blast
  from both [THEN conjunct1, rule_format, OF t] g
  have "\<exists>m'. map_current s' = Some m'
          \<and> filter (\<lambda>l. l \<in> set (map route_layer [0..<10])) (layers m')
              = map route_layer [0..<length (routes s')]"
    by auto
  have r0: "route_layer 0 = ''route-0''"
    by (simp add: route_layer_def show_nat.simps digit_def)
  have "route_layer 0 \<in> set (map route_layer [0..<10])" by simp
  then have "''route-0'' \<in> set (map route_layer [0..<10])" by (simp only: r0)
  with l have "layers m' = []" "sources m' = []" by simp_all
  with g f unmounted none showing_fields(1) isochrone_provider_down show ?thesis
    by simp
qed

text \<open>
  C4, as stated, fails: after the failed run the route that was shown and its layer
  are gone, so the state is not the one before the run.
\<close>

theorem last_good_state_counterexample:
  "routes showing = [candidate 0 600]
   \<and> map_option layers (map_current showing) = Some [''route-0'']
   \<and> fst (getIsochrone example_config 1 2 15 provider_down)
       = Inl (Error ''Failed to fetch isochrone: Failed to fetch'')
   \<and> map_option (routes \<circ> fst) (generateRoutes example_env showing provider_down) = Some []
   \<and> map_option (map_option layers \<circ> map_current \<circ> fst)
         (generateRoutes example_env showing provider_down) = Some (Some [])
   \<and> map_option (routes \<circ> fst) (generateRoutes example_env showing provider_down)
       \<noteq> Some (routes showing)"
proof -
  have fail: "fst (getIsochrone (env_config example_env) (lng showing) (lat showing)
                (halfDuration (walkDuration showing)) provider_down)
           = Inl (Error ''Failed to fetch isochrone: Failed to fetch'')"
    by (simp only: example_env_fields showing_fields halfDuration_30 isochrone_provider_down)
  have r0: "route_layer 0 = ''route-0''"
    by (simp add: route_layer_def show_nat.simps digit_def)
  have "route_layer 0 \<in> set (map route_layer [0..<10])" by simp
  then have "''route-0'' \<in> set (map route_layer [0..<10])" by (simp only: r0)
  then show ?thesis
    unfolding generateRoutes_isochrone_fails [OF showing_fields(1) fail]
    using isochrone_provider_down by (simp add: showing_fields)
qed




section \<open>The duration of the isochrone\<close>

text \<open>
  C6. \<open>halfDuration\<close> is the floor of half the duration, and at least 5: 15 for 30,
  5 for 8 and for 10, 45 for 90. It is the \<open>contours_minutes\<close> of the first request of
  every run of \<open>generateRoutes\<close> on a map.
\<close>

theorem halfDuration_floor_half_at_least_five:
  "halfDuration d = max \<lfloor>d / 2\<rfloor> 5
   \<and> halfDuration 30 = 15 \<and> halfDuration 8 = 5 \<and> halfDuration 10 = 5 \<and> halfDuration 90 = 45
   \<and> (\<forall>s' net'. map_current s \<noteq> None \<and> generateRoutes e s net = Some (s', net') \<longrightarrow>
         (\<exists>rest. requests net' = requests net
            @ isochrone_url (env_config e) (lng s) (lat s) (max \<lfloor>walkDuration s / 2\<rfloor> 5) # rest))"
proof -
  have "\<exists>rest. requests net' = requests net
            @ isochrone_url (env_config e) (lng s) (lat s) (max \<lfloor>walkDuration s / 2\<rfloor> 5) # rest"
    if "map_current s \<noteq> None \<and> generateRoutes e s net = Some (s', net')" for s' net'
    using generateRoutes_first_request [of s e net s' net'] that
    by (simp add: halfDuration_def)
  then show ?thesis
    by (simp add: halfDuration_def)
qed

text \<open>A walk of 30 minutes is asked an isochrone of 15.\<close>

theorem halfDuration_floor_half_at_least_five_witness:
  "map_current idle \<noteq> None
   \<and> walkDuration idle = 30
   \<and> max \<lfloor>(30 :: real) / 2\<rfloor> 5 = 15
   \<and> map_option (requests \<circ> snd) (generateRoutes example_env idle provider_down)
       = Some [''https://api.mapbox.com/isochrone/v1/mapbox/walking/1,2?contours_minutes=15&polygons=true&access_token=pk.test'']"
proof -
  have fail: "fst (getIsochrone (env_config example_env) (lng idle) (lat idle)
                (halfDuration (walkDuration idle)) provider_down)
           = Inl (Error ''Failed to fetch isochrone: Failed to fetch'')"
    by (simp only: example_env_fields idle_fields halfDuration_30 isochrone_provider_down)
  have run: "map_option (requests \<circ> snd) (generateRoutes example_env idle provider_down)
       = Some [isochrone_url example_config 1 2 15]"
    unfolding generateRoutes_isochrone_fails [OF idle_fields(1) fail]
    by (simp add: example_env_fields idle_fields halfDuration_30 provider_down_def)
  then obtain s' net' where g: "generateRoutes example_env idle provider_down = Some (s', net')"
    by auto
  have init: "map_current idle \<noteq> None" by (simp add: idle_fields)
  from halfDuration_floor_half_at_least_five [of 30 idle example_env provider_down]
    init g
  obtain rest where "requests net' = requests provider_down
            @ isochrone_url example_config 1 2 (max \<lfloor>30 / 2\<rfloor> 5) # rest"
    by (auto simp: example_env_fields idle_fields)
  with run g init show ?thesis
    by (simp add: idle_fields isochrone_url_example provider_down_def)
qed

end
